theory Spec2Isabelle
  imports Complex_Main
begin

section \<open>Data model of the showtime controller\<close>

text \<open>
  Document identifiers (MongoDB ObjectIds) are natural numbers. A JavaScript \<open>Date\<close> is
  its time value: an integer number of milliseconds since the epoch; JavaScript numbers
  are integers within the safe range.
\<close>

type_synonym oid = nat
type_synonym time = int

text \<open>
  The values a request body can carry for \<open>price\<close>, and what \<open>cinema.priceList\<close> holds:
  a price list is an object with numeric entries (the chatbot reads \<open>price.standard\<close>).
\<close>

datatype jsval =
    JUndefined
  | JNull
  | JBool bool
  | JNum int
  | JStr string
  | JObj "(string \<times> int) list"

fun truthy :: "jsval \<Rightarrow> bool" where
  "truthy JUndefined = False"
| "truthy JNull = False"
| "truthy (JBool b) = b"
| "truthy (JNum n) = (n \<noteq> 0)"
| "truthy (JStr s) = (s \<noteq> [])"
| "truthy (JObj kvs) = True"

text \<open>The JavaScript operator \<open>a || b\<close>.\<close>

definition js_or :: "jsval \<Rightarrow> jsval \<Rightarrow> jsval" where
  "js_or a b = (if truthy a then a else b)"

datatype status = Upcoming | Ongoing | Ended

record movie =
  m_id :: oid
  duration :: int

record screen =
  scr_id :: oid
  seats_total :: int

record cinema =
  c_id :: oid
  screens :: "screen list"
  priceList :: jsval

record showtime =
  sid :: oid
  movieId :: oid
  cinemaId :: oid
  screenId :: oid
  startTime :: time
  endTime :: time
  date :: time
  price :: jsval
  availableSeats :: int
  bookedSeats :: "string list"
  status :: status
  isActive :: bool

text \<open>The three collections the controller reads and writes.\<close>

record store =
  showtimes :: "showtime list"
  movies :: "movie list"
  cinemas :: "cinema list"

text \<open>
  What a handler does with the response: \<open>res.status(code).json({success: false, message})\<close>
  is \<open>Failure code message\<close>; an exception caught by the handler's \<open>catch\<close> and passed to
  \<open>next(error)\<close> is \<open>Thrown\<close>. A success is \<open>Inr (code, payload)\<close>.
\<close>

datatype failure = Failure nat string | Thrown

type_synonym 'a reply = "failure + (nat \<times> 'a)"

subsection \<open>Date arithmetic\<close>

text \<open>
  The ECMAScript time-value components of a local time value, and \<open>MakeDate (MakeDay,
  MakeTime)\<close> within one day count.
\<close>

definition msPerDay :: int where "msPerDay = 86400000"
definition msPerHour :: int where "msPerHour = 3600000"
definition msPerMinute :: int where "msPerMinute = 60000"
definition msPerSecond :: int where "msPerSecond = 1000"

text \<open>
  The time zone of the process is ECMAScript's \<open>LocalTZA(t, isUTC)\<close>: the offset of local
  time from UTC in milliseconds, asked at a UTC time value (\<open>isUTC\<close> true) or at a local
  time value (\<open>isUTC\<close> false). The offset depends on the instant, as daylight saving
  makes it. \<open>fixed_zone off\<close> is a zone that keeps the offset of \<open>off\<close> minutes all year.
\<close>

type_synonym zone = "int \<Rightarrow> bool \<Rightarrow> int"

definition LocalTime :: "zone \<Rightarrow> time \<Rightarrow> int" where
  "LocalTime tz t = t + tz t True"

definition UTC :: "zone \<Rightarrow> int \<Rightarrow> time" where
  "UTC tz l = l - tz l False"

definition fixed_zone :: "int \<Rightarrow> zone" where
  "fixed_zone off = (\<lambda>t isUTC. off * msPerMinute)"

definition Day :: "int \<Rightarrow> int" where "Day l = l div msPerDay"
definition HourFromTime :: "int \<Rightarrow> int" where "HourFromTime l = (l div msPerHour) mod 24"
definition MinFromTime :: "int \<Rightarrow> int" where "MinFromTime l = (l div msPerMinute) mod 60"
definition SecFromTime :: "int \<Rightarrow> int" where "SecFromTime l = (l div msPerSecond) mod 60"
definition msFromTime :: "int \<Rightarrow> int" where "msFromTime l = l mod msPerSecond"

definition MakeDate :: "int \<Rightarrow> int \<Rightarrow> int \<Rightarrow> int \<Rightarrow> int \<Rightarrow> int" where
  "MakeDate day h m s ms =
     day * msPerDay + h * msPerHour + m * msPerMinute + s * msPerSecond + ms"

text \<open>\<open>Date.prototype.getMinutes\<close>, \<open>setMinutes(min)\<close> and \<open>setHours(h, m, s, ms)\<close>.\<close>

definition getMinutes :: "zone \<Rightarrow> time \<Rightarrow> int" where
  "getMinutes tz t = MinFromTime (LocalTime tz t)"

definition setMinutes :: "zone \<Rightarrow> time \<Rightarrow> int \<Rightarrow> time" where
  "setMinutes tz t m =
     (let l = LocalTime tz t
      in UTC tz (MakeDate (Day l) (HourFromTime l) m (SecFromTime l) (msFromTime l)))"

definition setHours :: "zone \<Rightarrow> time \<Rightarrow> int \<Rightarrow> int \<Rightarrow> int \<Rightarrow> int \<Rightarrow> time" where
  "setHours tz t h m s ms = UTC tz (MakeDate (Day (LocalTime tz t)) h m s ms)"

subsection \<open>Collection operations\<close>

text \<open>\<open>Model.findById\<close>: the document with that \<open>_id\<close>, or \<open>null\<close>.\<close>

definition Movie_findById :: "oid \<Rightarrow> store \<Rightarrow> movie option" where
  "Movie_findById i st = find (\<lambda>m. m_id m = i) (movies st)"

definition Cinema_findById :: "oid \<Rightarrow> store \<Rightarrow> cinema option" where
  "Cinema_findById i st = find (\<lambda>c. c_id c = i) (cinemas st)"

definition Showtime_findById :: "oid \<Rightarrow> store \<Rightarrow> showtime option" where
  "Showtime_findById i st = find (\<lambda>r. sid r = i) (showtimes st)"

text \<open>\<open>cinema.screens.id(screenId)\<close>: the subdocument with that \<open>_id\<close>, or \<open>null\<close>.\<close>

definition screens_id :: "cinema \<Rightarrow> oid \<Rightarrow> screen option" where
  "screens_id c i = find (\<lambda>s. scr_id s = i) (screens c)"

text \<open>
  \<open>document.save()\<close> and \<open>findByIdAndUpdate\<close> write one document: the stored document
  with that \<open>_id\<close> (the first and, ids being unique in a collection, the only one).
\<close>

fun replace_by_id :: "showtime \<Rightarrow> showtime list \<Rightarrow> showtime list" where
  "replace_by_id doc [] = []"
| "replace_by_id doc (r # rs) =
     (if sid r = sid doc then doc # rs else r # replace_by_id doc rs)"

definition save :: "showtime \<Rightarrow> store \<Rightarrow> store" where
  "save doc st = st\<lparr>showtimes := replace_by_id doc (showtimes st)\<rparr>"

text \<open>
  Modelled from the spec: the Showtime schema (models/Showtime.model.js) is not among the
  sources. The spec gives a new record \<open>bookedSeats = []\<close> and \<open>isActive = true\<close>; it names
  no initial \<open>status\<close>, the first of its three values stands here and nothing below
  depends on it.
\<close>

definition default_bookedSeats :: "string list" where "default_bookedSeats = []"
definition default_isActive :: bool where "default_isActive = True"
definition default_status :: status where "default_status = Upcoming"

text \<open>
  \<open>Showtime.create(fields)\<close>: the driver supplies the new \<open>_id\<close>; the collection rejects
  a duplicate key, which the handler passes to \<open>next\<close>.
\<close>

definition Showtime_create :: "showtime \<Rightarrow> store \<Rightarrow> failure + store" where
  "Showtime_create doc st =
     (if sid doc \<in> set (map sid (showtimes st)) then Inl Thrown
      else Inr (st\<lparr>showtimes := showtimes st @ [doc]\<rparr>))"

section \<open>createShowtime\<close>

text \<open>
  \<open>req.body\<close> of a create, with \<open>startTime\<close> and \<open>date\<close> as the time values of
  \<open>new Date(startTime)\<close> and \<open>new Date(date)\<close>. The schema's validators are not among the
  sources; a body of this type stands for a request that passes them.
\<close>

record create_body =
  b_movieId :: oid
  b_cinemaId :: oid
  b_screenId :: oid
  b_startTime :: time
  b_date :: time
  b_price :: jsval

text \<open>The filter of the \<open>Showtime.findOne\<close> conflict query.\<close>

definition conflict_query :: "create_body \<Rightarrow> time \<Rightarrow> showtime \<Rightarrow> bool" where
  "conflict_query body endT r \<longleftrightarrow>
     cinemaId r = b_cinemaId body \<and>
     screenId r = b_screenId body \<and>
     date r = b_date body \<and>
     (startTime r < endT \<and> endTime r > b_startTime body) \<and>
     isActive r"

text \<open>
  The end time: \<open>endTime = new Date(startTime)\<close> and then
  \<open>endTime.setMinutes(endTime.getMinutes() + movie.duration + 15)\<close>.
\<close>

definition calc_endTime :: "zone \<Rightarrow> time \<Rightarrow> int \<Rightarrow> time" where
  "calc_endTime tz start d = setMinutes tz start (getMinutes tz start + d + 15)"

definition createShowtime ::
  "zone \<Rightarrow> oid \<Rightarrow> create_body \<Rightarrow> store \<Rightarrow> showtime reply \<times> store" where
  "createShowtime tz newId body st =
     (case (Movie_findById (b_movieId body) st, Cinema_findById (b_cinemaId body) st) of
        (Some movie, Some cinema) \<Rightarrow>
          (case screens_id cinema (b_screenId body) of
             None \<Rightarrow> (Inl (Failure 404 ''Screen not found''), st)
           | Some screen \<Rightarrow>
               (let endT = calc_endTime tz (b_startTime body) (duration movie)
                in case find (conflict_query body endT) (showtimes st) of
                     Some conflictingShowtime \<Rightarrow>
                       (Inl (Failure 400 ''Time slot conflicts with existing showtime''), st)
                   | None \<Rightarrow>
                       (let doc = \<lparr>sid = newId,
                                   movieId = b_movieId body,
                                   cinemaId = b_cinemaId body,
                                   screenId = b_screenId body,
                                   startTime = b_startTime body,
                                   endTime = endT,
                                   date = b_date body,
                                   price = js_or (b_price body) (priceList cinema),
                                   availableSeats = seats_total screen,
                                   bookedSeats = default_bookedSeats,
                                   status = default_status,
                                   isActive = default_isActive\<rparr>
                        in case Showtime_create doc st of
                             Inl e \<Rightarrow> (Inl e, st)
                           | Inr st' \<Rightarrow> (Inr (201, doc), st'))))
      | _ \<Rightarrow> (Inl (Failure 404 ''Movie or Cinema not found''), st))"

section \<open>getShowtime\<close>

text \<open>
  Modelled from the spec: the schema method \<open>updateStatus\<close> (models/Showtime.model.js) is
  not among the sources. The spec: \<open>now < startTime\<close> gives \<open>upcoming\<close>,
  \<open>startTime \<le> now \<le> endTime\<close> gives \<open>ongoing\<close>, \<open>now > endTime\<close> gives \<open>ended\<close>; the
  handler discards the method's result and saves the document, so the method stores the
  status in the document.
\<close>

definition computeStatus :: "time \<Rightarrow> time \<Rightarrow> time \<Rightarrow> status" where
  "computeStatus now s e =
     (if now < s then Upcoming else if now \<le> e then Ongoing else Ended)"

definition updateStatus :: "time \<Rightarrow> showtime \<Rightarrow> showtime" where
  "updateStatus now r = r\<lparr>status := computeStatus now (startTime r) (endTime r)\<rparr>"

text \<open>
  \<open>populate\<close> joins the referenced movie and cinema into the response only; the stored
  references are not changed by it and it is left out.
\<close>

definition getShowtime :: "time \<Rightarrow> oid \<Rightarrow> store \<Rightarrow> showtime reply \<times> store" where
  "getShowtime now i st =
     (case Showtime_findById i st of
        None \<Rightarrow> (Inl (Failure 404 ''Showtime not found''), st)
      | Some showtime \<Rightarrow>
          (let showtime' = updateStatus now showtime
           in (Inr (200, showtime'), save showtime' st)))"

section \<open>updateShowtime\<close>

text \<open>
  \<open>req.body\<close> of an update: any subset of the schema's paths. \<open>runValidators\<close> runs the
  schema's validators on the paths of the patch; they live in the schema and are the
  parameter \<open>valid\<close>. A rejected patch throws.
\<close>

record showtime_patch =
  p_movieId :: "oid option"
  p_cinemaId :: "oid option"
  p_screenId :: "oid option"
  p_startTime :: "time option"
  p_endTime :: "time option"
  p_date :: "time option"
  p_price :: "jsval option"
  p_availableSeats :: "int option"
  p_bookedSeats :: "string list option"
  p_status :: "status option"
  p_isActive :: "bool option"

definition patched :: "'a option \<Rightarrow> 'a \<Rightarrow> 'a" where
  "patched new old = (case new of None \<Rightarrow> old | Some v \<Rightarrow> v)"

definition apply_patch :: "showtime_patch \<Rightarrow> showtime \<Rightarrow> showtime" where
  "apply_patch p r =
     \<lparr>sid = sid r,
      movieId = patched (p_movieId p) (movieId r),
      cinemaId = patched (p_cinemaId p) (cinemaId r),
      screenId = patched (p_screenId p) (screenId r),
      startTime = patched (p_startTime p) (startTime r),
      endTime = patched (p_endTime p) (endTime r),
      date = patched (p_date p) (date r),
      price = patched (p_price p) (price r),
      availableSeats = patched (p_availableSeats p) (availableSeats r),
      bookedSeats = patched (p_bookedSeats p) (bookedSeats r),
      status = patched (p_status p) (status r),
      isActive = patched (p_isActive p) (isActive r)\<rparr>"

definition updateShowtime ::
  "(showtime_patch \<Rightarrow> bool) \<Rightarrow> oid \<Rightarrow> showtime_patch \<Rightarrow> store \<Rightarrow> showtime reply \<times> store" where
  "updateShowtime valid i body st =
     (case Showtime_findById i st of
        None \<Rightarrow> (Inl (Failure 404 ''Showtime not found''), st)
      | Some showtime \<Rightarrow>
          (if \<not> valid body then (Inl Thrown, st)
           else (let showtime' = apply_patch body showtime
                 in (Inr (200, showtime'), save showtime' st))))"

section \<open>deleteShowtime\<close>

definition deleteShowtime :: "oid \<Rightarrow> store \<Rightarrow> string reply \<times> store" where
  "deleteShowtime i st =
     (case Showtime_findById i st of
        None \<Rightarrow> (Inl (Failure 404 ''Showtime not found''), st)
      | Some showtime \<Rightarrow>
          (if length (bookedSeats showtime) > 0
           then (Inl (Failure 400 ''Cannot delete showtime with existing bookings''), st)
           else (Inr (200, ''Showtime deleted successfully''),
                 save (showtime\<lparr>isActive := False\<rparr>) st)))"

section \<open>Listing handlers\<close>

text \<open>
  \<open>req.query\<close> of the listing routes. For \<open>movieId\<close>, \<open>cinemaId\<close> and \<open>date\<close> an absent or
  empty parameter is \<open>None\<close> (the handlers test \<open>if (movieId)\<close>, \<open>if (date)\<close>); \<open>q_date\<close> is
  the time value of \<open>new Date(date)\<close>. For \<open>page\<close> and \<open>limit\<close> an absent parameter is \<open>None\<close>
  and a present one is its numeric value.
\<close>

record list_query =
  q_movieId :: "oid option"
  q_cinemaId :: "oid option"
  q_date :: "time option"
  q_page :: "int option"
  q_limit :: "int option"

record list_reply =
  lr_count :: nat
  lr_total :: nat
  lr_totalPages :: "int option"
  lr_currentPage :: int
  lr_showtimes :: "showtime list"

text \<open>
  The \<open>startTime\<close> condition: \<open>targetDate.setHours(0, 0, 0, 0)\<close> moves \<open>targetDate\<close> to the
  start of its day and the second \<open>setHours\<close> acts on the moved date.
\<close>

definition startTime_cond :: "zone \<Rightarrow> time \<Rightarrow> time option \<Rightarrow> showtime \<Rightarrow> bool" where
  "startTime_cond tz now d r =
     (case d of
        Some targetDate \<Rightarrow>
          (let startOfDay = setHours tz targetDate 0 0 0 0;
               endOfDay = setHours tz startOfDay 23 59 59 999
           in startOfDay \<le> startTime r \<and> startTime r \<le> endOfDay)
      | None \<Rightarrow> now \<le> startTime r)"

definition opt_eq :: "'a option \<Rightarrow> 'a \<Rightarrow> bool" where
  "opt_eq want have = (case want of None \<Rightarrow> True | Some v \<Rightarrow> have = v)"

text \<open>
  \<open>Showtime.find(query).sort('startTime')\<close>; showtimes with equal \<open>startTime\<close> keep their
  stored order here.
\<close>

definition find_sorted :: "(showtime \<Rightarrow> bool) \<Rightarrow> store \<Rightarrow> showtime list" where
  "find_sorted query st = sort_key startTime (filter query (showtimes st))"

text \<open>
  \<open>.limit(n).skip(k)\<close> of a query: the skip applies before the limit; the server rejects
  a negative skip (the handler passes the error to \<open>next\<close>); a limit of 0 is no limit and
  the driver sends a negative limit as its absolute value, asking for a single batch,
  which is taken here to hold all of them. The properties below that depend on the
  limit are stated for \<open>page \<ge> 1\<close> and \<open>limit \<ge> 1\<close>.
\<close>

definition limit_skip :: "int \<Rightarrow> int \<Rightarrow> 'a list \<Rightarrow> failure + 'a list" where
  "limit_skip n k xs =
     (if k < 0 then Inl Thrown
      else Inr (let ys = drop (nat k) xs in if n = 0 then ys else take (nat \<bar>n\<bar>) ys))"

text \<open>
  \<open>Math.ceil(count / limit)\<close>; a division by 0 gives \<open>Infinity\<close> or \<open>NaN\<close>, which JSON
  renders as \<open>null\<close>.
\<close>

definition ceil_div :: "int \<Rightarrow> int \<Rightarrow> int option" where
  "ceil_div c l = (if l = 0 then None else Some (- ((- c) div l)))"

definition getShowtimes_query :: "zone \<Rightarrow> time \<Rightarrow> list_query \<Rightarrow> showtime \<Rightarrow> bool" where
  "getShowtimes_query tz now rq r \<longleftrightarrow>
     isActive r \<and> opt_eq (q_movieId rq) (movieId r) \<and> opt_eq (q_cinemaId rq) (cinemaId r) \<and>
     startTime_cond tz now (q_date rq) r"

text \<open>The defaults of the destructuring \<open>{ page = 1, limit = 20 } = req.query\<close>.\<close>

definition page_of :: "list_query \<Rightarrow> int" where
  "page_of rq = (case q_page rq of None \<Rightarrow> 1 | Some p \<Rightarrow> p)"

definition limit_of :: "list_query \<Rightarrow> int" where
  "limit_of rq = (case q_limit rq of None \<Rightarrow> 20 | Some l \<Rightarrow> l)"

definition getShowtimes :: "zone \<Rightarrow> time \<Rightarrow> list_query \<Rightarrow> store \<Rightarrow> list_reply reply" where
  "getShowtimes tz now rq st =
     (let page = page_of rq;
          limit = limit_of rq;
          query = getShowtimes_query tz now rq
      in case limit_skip (limit * 1) ((page - 1) * limit) (find_sorted query st) of
           Inl e \<Rightarrow> Inl e
         | Inr found \<Rightarrow>
             (let count = length (filter query (showtimes st))
              in Inr (200, \<lparr>lr_count = length found,
                            lr_total = count,
                            lr_totalPages = ceil_div (int count) limit,
                            lr_currentPage = page,
                            lr_showtimes = found\<rparr>)))"

definition getShowtimesByMovie_query ::
  "zone \<Rightarrow> time \<Rightarrow> oid \<Rightarrow> list_query \<Rightarrow> showtime \<Rightarrow> bool" where
  "getShowtimesByMovie_query tz now mid rq r \<longleftrightarrow>
     movieId r = mid \<and> isActive r \<and> startTime_cond tz now (q_date rq) r \<and>
     opt_eq (q_cinemaId rq) (cinemaId r)"

definition getShowtimesByMovie ::
  "zone \<Rightarrow> time \<Rightarrow> oid \<Rightarrow> list_query \<Rightarrow> store \<Rightarrow> (nat \<times> showtime list) reply" where
  "getShowtimesByMovie tz now mid rq st =
     (let found = find_sorted (getShowtimesByMovie_query tz now mid rq) st
      in Inr (200, (length found, found)))"

definition getShowtimesByCinema_query ::
  "zone \<Rightarrow> time \<Rightarrow> oid \<Rightarrow> list_query \<Rightarrow> showtime \<Rightarrow> bool" where
  "getShowtimesByCinema_query tz now cid rq r \<longleftrightarrow>
     cinemaId r = cid \<and> isActive r \<and> startTime_cond tz now (q_date rq) r \<and>
     opt_eq (q_movieId rq) (movieId r)"

definition getShowtimesByCinema ::
  "zone \<Rightarrow> time \<Rightarrow> oid \<Rightarrow> list_query \<Rightarrow> store \<Rightarrow> (nat \<times> showtime list) reply" where
  "getShowtimesByCinema tz now cid rq st =
     (let found = find_sorted (getShowtimesByCinema_query tz now cid rq) st
      in Inr (200, (length found, found)))"

text \<open>The showtimes a listing reply carries (none when the handler threw).\<close>

definition listed :: "list_reply reply \<Rightarrow> showtime list" where
  "listed rp = (case rp of Inl e \<Rightarrow> [] | Inr (code, rep) \<Rightarrow> lr_showtimes rep)"

definition listed_by :: "(nat \<times> showtime list) reply \<Rightarrow> showtime list" where
  "listed_by rp = (case rp of Inl e \<Rightarrow> [] | Inr (code, (n, xs)) \<Rightarrow> xs)"

text \<open>
  What the listing claims say of a reply's showtimes: all active, ascending by
  \<open>startTime\<close>, and within the day of the date filter (from 00:00:00.000 local of the
  filter's day to 23:59:59.999 local of the day that instant lies in) or, without a date
  filter, not before \<open>now\<close>.
\<close>

definition listing_ok :: "zone \<Rightarrow> time \<Rightarrow> time option \<Rightarrow> showtime list \<Rightarrow> bool" where
  "listing_ok tz now d xs \<longleftrightarrow>
     (\<forall>x \<in> set xs. isActive x) \<and>
     sorted (map startTime xs) \<and>
     (case d of
        Some t \<Rightarrow> \<forall>x \<in> set xs. setHours tz t 0 0 0 0 \<le> startTime x \<and>
                               startTime x \<le> setHours tz (setHours tz t 0 0 0 0) 23 59 59 999
      | None \<Rightarrow> \<forall>x \<in> set xs. now \<le> startTime x)"

section \<open>The scheduling invariant and the scheduler's operations\<close>

definition same_slot :: "showtime \<Rightarrow> showtime \<Rightarrow> bool" where
  "same_slot a b \<longleftrightarrow> cinemaId a = cinemaId b \<and> screenId a = screenId b \<and> date a = date b"

definition interval :: "showtime \<Rightarrow> int set" where
  "interval r = {startTime r ..< endTime r}"

definition no_overlap :: "store \<Rightarrow> bool" where
  "no_overlap st \<longleftrightarrow>
     (\<forall>i < length (showtimes st). \<forall>j < length (showtimes st).
        i \<noteq> j \<and> isActive (showtimes st ! i) \<and> isActive (showtimes st ! j) \<and>
        same_slot (showtimes st ! i) (showtimes st ! j)
        \<longrightarrow> interval (showtimes st ! i) \<inter> interval (showtimes st ! j) = {})"

datatype request =
    CreateReq zone oid create_body
  | UpdateReq oid showtime_patch
  | DeleteReq oid

fun is_update :: "request \<Rightarrow> bool" where
  "is_update (UpdateReq i p) = True"
| "is_update _ = False"

fun handle :: "(showtime_patch \<Rightarrow> bool) \<Rightarrow> store \<Rightarrow> request \<Rightarrow> store" where
  "handle valid st (CreateReq tz newId body) = snd (createShowtime tz newId body st)"
| "handle valid st (UpdateReq i p) = snd (updateShowtime valid i p st)"
| "handle valid st (DeleteReq i) = snd (deleteShowtime i st)"

definition run :: "(showtime_patch \<Rightarrow> bool) \<Rightarrow> request list \<Rightarrow> store \<Rightarrow> store" where
  "run valid rs st = foldl (handle valid) st rs"

section \<open>Example data\<close>

text \<open>
  One cinema with one screen of 100 seats, one movie of 120 minutes, and showtimes on the
  day that starts at time value 0 in a zone with offset 0: 14:00 is 50400000, 15:00 is
  54000000 and 16:15 is 58500000.
\<close>

text \<open>
  America/New_York in 2024: UTC-5, and UTC-4 from 10 March 07:00 UTC (1710054000000)
  until 3 November 06:00 UTC (1730613600000). A local time value in the hour skipped
  in March or in the hour repeated in November is read with the offset before the change.
\<close>

definition new_york_2024 :: zone where
  "new_york_2024 t isUTC =
     (if isUTC
      then (if 1710054000000 \<le> t \<and> t < 1730613600000 then - 4 * msPerHour
            else - 5 * msPerHour)
      else (if 1710039600000 \<le> t \<and> t < 1730599200000 then - 4 * msPerHour
            else - 5 * msPerHour))"

definition demo_movie :: movie where
  "demo_movie = \<lparr>m_id = 1, duration = 120\<rparr>"

definition demo_screen :: screen where
  "demo_screen = \<lparr>scr_id = 1, seats_total = 100\<rparr>"

definition demo_cinema :: cinema where
  "demo_cinema = \<lparr>c_id = 1, screens = [demo_screen], priceList = JObj [(''standard'', 80000)]\<rparr>"

definition demo_body :: "time \<Rightarrow> jsval \<Rightarrow> create_body" where
  "demo_body t p = \<lparr>b_movieId = 1, b_cinemaId = 1, b_screenId = 1, b_startTime = t, b_date = 0,
                    b_price = p\<rparr>"

definition demo_showtime :: "oid \<Rightarrow> time \<Rightarrow> showtime" where
  "demo_showtime i t =
     \<lparr>sid = i, movieId = 1, cinemaId = 1, screenId = 1, startTime = t, endTime = t + 8100000,
      date = 0, price = JObj [(''standard'', 80000)], availableSeats = 100, bookedSeats = [],
      status = Upcoming, isActive = True\<rparr>"

definition demo_store :: "showtime list \<Rightarrow> store" where
  "demo_store xs = \<lparr>showtimes = xs, movies = [demo_movie], cinemas = [demo_cinema]\<rparr>"

definition demo_booked :: "oid \<Rightarrow> time \<Rightarrow> showtime" where
  "demo_booked i t = (demo_showtime i t)\<lparr>availableSeats := 99, bookedSeats := [''A1'']\<rparr>"

definition demo_query :: list_query where
  "demo_query = \<lparr>q_movieId = None, q_cinemaId = None, q_date = None, q_page = None,
                  q_limit = None\<rparr>"

definition demo_listing_store :: store where
  "demo_listing_store =
     demo_store [demo_showtime 2 58500000,
                 (demo_showtime 3 54000000)\<lparr>isActive := False\<rparr>,
                 demo_showtime 1 50400000,
                 demo_showtime 4 (86400000 + 50400000)]"

definition no_patch :: showtime_patch where
  "no_patch = \<lparr>p_movieId = None, p_cinemaId = None, p_screenId = None, p_startTime = None,
                p_endTime = None, p_date = None, p_price = None, p_availableSeats = None,
                p_bookedSeats = None, p_status = None, p_isActive = None\<rparr>"

section \<open>Properties\<close>

lemma time_components:
  "MakeDate (Day l) (HourFromTime l) (MinFromTime l) (SecFromTime l) (msFromTime l) = l"
proof -
  have s: "l = (l div 1000) * 1000 + l mod 1000" by simp
  have m: "l div 1000 = (l div 1000 div 60) * 60 + (l div 1000) mod 60" by simp
  have h: "l div 1000 div 60 = (l div 1000 div 60 div 60) * 60 + (l div 1000 div 60) mod 60"
    by simp
  have d: "l div 1000 div 60 div 60
             = (l div 1000 div 60 div 60 div 24) * 24 + (l div 1000 div 60 div 60) mod 24"
    by simp
  have e1: "l div 60000 = l div 1000 div 60"
    by (simp add: zdiv_zmult2_eq)
  have e2: "l div 3600000 = l div 1000 div 60 div 60"
    by (simp add: zdiv_zmult2_eq)
  have e3: "l div 86400000 = l div 1000 div 60 div 60 div 24"
    by (simp add: zdiv_zmult2_eq)
  show ?thesis
    unfolding MakeDate_def Day_def HourFromTime_def MinFromTime_def SecFromTime_def
      msFromTime_def msPerDay_def msPerHour_def msPerMinute_def msPerSecond_def e1 e2 e3
    using s m h d by linarith
qed

lemma setMinutes_add:
  "setMinutes tz t (getMinutes tz t + k)
     = UTC tz (LocalTime tz t + k * msPerMinute)"
proof -
  let ?l = "LocalTime tz t"
  have "MakeDate (Day ?l) (HourFromTime ?l) (MinFromTime ?l + k) (SecFromTime ?l) (msFromTime ?l)
          = MakeDate (Day ?l) (HourFromTime ?l) (MinFromTime ?l) (SecFromTime ?l) (msFromTime ?l)
            + k * msPerMinute"
    by (simp add: MakeDate_def algebra_simps)
  then show ?thesis
    by (simp add: setMinutes_def getMinutes_def Let_def time_components)
qed

lemma calc_endTime_eq:
  "calc_endTime tz start d
     = start + (d + 15) * 60000
       + (tz start True - tz (start + tz start True + (d + 15) * 60000) False)"
  using setMinutes_add [of tz start "d + 15"]
  by (simp add: calc_endTime_def UTC_def LocalTime_def msPerMinute_def algebra_simps)

lemma calc_endTime_fixed_zone [simp]:
  "calc_endTime (fixed_zone off) start d = start + (d + 15) * 60000"
  by (simp add: calc_endTime_eq fixed_zone_def)

lemmas demo_defs = demo_movie_def demo_screen_def demo_cinema_def demo_body_def
  demo_showtime_def demo_store_def

lemmas listing_defs = listed_def listed_by_def getShowtimes_def getShowtimesByMovie_def
  getShowtimesByCinema_def getShowtimes_query_def getShowtimesByMovie_query_def
  getShowtimesByCinema_query_def startTime_cond_def opt_eq_def find_sorted_def limit_skip_def
  page_of_def limit_of_def ceil_div_def

lemmas handler_defs = Movie_findById_def Cinema_findById_def Showtime_findById_def screens_id_def
  conflict_query_def js_or_def Showtime_create_def default_bookedSeats_def default_isActive_def
  default_status_def save_def Let_def

lemma createShowtime_success:
  assumes "createShowtime tz newId body st = (Inr (code, doc), st')"
  shows "\<exists>movie cinema screen.
           Movie_findById (b_movieId body) st = Some movie \<and>
           Cinema_findById (b_cinemaId body) st = Some cinema \<and>
           screens_id cinema (b_screenId body) = Some screen \<and>
           find (conflict_query body (calc_endTime tz (b_startTime body) (duration movie)))
             (showtimes st) = None \<and>
           newId \<notin> set (map sid (showtimes st)) \<and>
           code = 201 \<and>
           doc = \<lparr>sid = newId, movieId = b_movieId body, cinemaId = b_cinemaId body,
                   screenId = b_screenId body, startTime = b_startTime body,
                   endTime = calc_endTime tz (b_startTime body) (duration movie),
                   date = b_date body, price = js_or (b_price body) (priceList cinema),
                   availableSeats = seats_total screen, bookedSeats = [],
                   status = Upcoming, isActive = True\<rparr> \<and>
           st' = st\<lparr>showtimes := showtimes st @ [doc]\<rparr>"
  using assms
  unfolding createShowtime_def Showtime_create_def Let_def
    default_bookedSeats_def default_isActive_def default_status_def
  by (auto split: option.splits if_splits)

lemma createShowtime_demo_first:
  "createShowtime (fixed_zone 0) 1 (demo_body 50400000 JUndefined) (demo_store [])
     = (Inr (201, demo_showtime 1 50400000), demo_store [demo_showtime 1 50400000])"
  by (simp add: createShowtime_def handler_defs demo_defs)

lemma createShowtime_demo_abutting:
  "createShowtime (fixed_zone 0) 2 (demo_body 58500000 JUndefined) (demo_store [demo_showtime 1 50400000])
     = (Inr (201, demo_showtime 2 58500000),
        demo_store [demo_showtime 1 50400000, demo_showtime 2 58500000])"
  by (simp add: createShowtime_def handler_defs demo_defs)


lemma createShowtime_demo_priced:
  "createShowtime (fixed_zone 0) 1 (demo_body 50400000 (JObj [(''standard'', 95000)])) (demo_store [])
     = (Inr (201, (demo_showtime 1 50400000)\<lparr>price := JObj [(''standard'', 95000)]\<rparr>),
        demo_store [(demo_showtime 1 50400000)\<lparr>price := JObj [(''standard'', 95000)]\<rparr>])"
  by (simp add: createShowtime_def handler_defs demo_defs)

lemma createShowtime_demo_zero:
  "createShowtime (fixed_zone 0) 1 (demo_body 50400000 (JNum 0)) (demo_store [])
     = (Inr (201, demo_showtime 1 50400000), demo_store [demo_showtime 1 50400000])"
  by (simp add: createShowtime_def handler_defs demo_defs)


lemma createShowtime_endTime_fixed_zone:
  assumes "createShowtime (fixed_zone off) newId body st = (Inr (code, doc), st')"
      and "Movie_findById (b_movieId body) st = Some movie"
  shows "startTime doc = b_startTime body \<and>
         endTime doc = b_startTime body + duration movie * 60000 + 15 * 60000 \<and>
         showtimes st' = showtimes st @ [doc]"
  using createShowtime_success [OF assms(1)] assms(2) by (auto simp: algebra_simps)

lemma createShowtime_endTime_general:
  assumes "createShowtime tz newId body st = (Inr (code, doc), st')"
      and "Movie_findById (b_movieId body) st = Some movie"
  shows "endTime doc
           = b_startTime body + (duration movie + 15) * 60000
             + (tz (b_startTime body) True
                - tz (b_startTime body + tz (b_startTime body) True
                      + (duration movie + 15) * 60000) False)"
  using createShowtime_success [OF assms(1)] assms(2) by (auto simp: calc_endTime_eq)

text \<open>
  Claim C3. The handler adds the minutes to the local clock reading (\<open>setMinutes\<close>), not to
  the time value. In America/New_York a create at 01:30 on 10 March 2024 (06:30 UTC,
  time value 1710052200000) of the 120-minute movie reads 01:30 + 135 minutes as 03:45
  local, which lies after the hour skipped at 02:00, and stores an end 75 minutes after
  the start, where the claim gives 135 minutes. In a zone that keeps one offset the end
  is the start plus duration plus 15 minutes (\<open>createShowtime_endTime_fixed_zone\<close>); in
  general it is off by the change of offset (\<open>createShowtime_endTime_general\<close>).
\<close>

theorem createShowtime_endTime_dst:
  "createShowtime new_york_2024 1 (demo_body 1710052200000 JUndefined) (demo_store [])
     = (Inr (201, (demo_showtime 1 1710052200000)\<lparr>endTime := 1710052200000 + 75 * 60000\<rparr>),
        demo_store [(demo_showtime 1 1710052200000)\<lparr>endTime := 1710052200000 + 75 * 60000\<rparr>]) \<and>
   duration demo_movie = 120 \<and>
   startTime ((demo_showtime 1 1710052200000)\<lparr>endTime := 1710052200000 + 75 * 60000\<rparr>)
     = 1710052200000 \<and>
   endTime ((demo_showtime 1 1710052200000)\<lparr>endTime := 1710052200000 + 75 * 60000\<rparr>)
     \<noteq> 1710052200000 + 120 * 60000 + 15 * 60000"
proof -
  have "calc_endTime new_york_2024 1710052200000 120 = 1710052200000 + 75 * 60000"
    by (simp add: calc_endTime_eq new_york_2024_def msPerHour_def)
  then show ?thesis
    by (simp add: createShowtime_def handler_defs demo_defs)
qed

text \<open>
  Claim C2. Once movie, cinema and screen are resolved, with the candidate's end as the
  handler computes it: a create whose interval meets, under the strict test, that of an
  active showtime of the same cinema, screen and date answers 400 (time slot conflict)
  and leaves the store as it was, and a 400 of that kind is only answered then; a create
  that no active showtime of the same cinema, screen and date meets under the strict test
  succeeds (given a fresh id), in particular when a stored showtime ends exactly where
  the candidate starts and no other one meets it.
\<close>

theorem createShowtime_conflict:
  assumes "Movie_findById (b_movieId body) st = Some movie"
      and "Cinema_findById (b_cinemaId body) st = Some cinema"
      and "screens_id cinema (b_screenId body) = Some screen"
      and "endT = calc_endTime tz (b_startTime body) (duration movie)"
  shows "((\<exists>r \<in> set (showtimes st).
             isActive r \<and> cinemaId r = b_cinemaId body \<and> screenId r = b_screenId body \<and>
             date r = b_date body \<and> startTime r < endT \<and> endTime r > b_startTime body)
          \<longrightarrow> createShowtime tz newId body st
                = (Inl (Failure 400 ''Time slot conflicts with existing showtime''), st)) \<and>
         (fst (createShowtime tz newId body st)
            = Inl (Failure 400 ''Time slot conflicts with existing showtime'')
          \<longrightarrow> (\<exists>r \<in> set (showtimes st).
                 isActive r \<and> cinemaId r = b_cinemaId body \<and> screenId r = b_screenId body \<and>
                 date r = b_date body \<and> startTime r < endT \<and> endTime r > b_startTime body)) \<and>
         ((\<forall>r \<in> set (showtimes st).
             isActive r \<and> cinemaId r = b_cinemaId body \<and> screenId r = b_screenId body \<and>
             date r = b_date body
             \<longrightarrow> \<not> (startTime r < endT \<and> endTime r > b_startTime body)) \<and>
          newId \<notin> set (map sid (showtimes st))
          \<longrightarrow> (\<exists>doc. createShowtime tz newId body st
                        = (Inr (201, doc), st\<lparr>showtimes := showtimes st @ [doc]\<rparr>) \<and>
                      startTime doc = b_startTime body \<and> endTime doc = endT)) \<and>
         (\<forall>r0 \<in> set (showtimes st).
            endTime r0 = b_startTime body \<and>
            (\<forall>r \<in> set (showtimes st).
               r \<noteq> r0 \<and> isActive r \<and> cinemaId r = b_cinemaId body \<and>
               screenId r = b_screenId body \<and> date r = b_date body
               \<longrightarrow> \<not> (startTime r < endT \<and> endTime r > b_startTime body)) \<and>
            newId \<notin> set (map sid (showtimes st))
            \<longrightarrow> (\<exists>doc. createShowtime tz newId body st
                          = (Inr (201, doc), st\<lparr>showtimes := showtimes st @ [doc]\<rparr>) \<and>
                        startTime doc = b_startTime body \<and> endTime doc = endT))"
proof -
  let ?meets = "\<lambda>r. isActive r \<and> cinemaId r = b_cinemaId body \<and> screenId r = b_screenId body \<and>
                    date r = b_date body \<and> startTime r < endT \<and> endTime r > b_startTime body"
  have q: "conflict_query body endT r \<longleftrightarrow> ?meets r" for r
    by (auto simp: conflict_query_def)
  have unfold: "createShowtime tz newId body st =
      (case find (conflict_query body endT) (showtimes st) of
         Some x \<Rightarrow> (Inl (Failure 400 ''Time slot conflicts with existing showtime''), st)
       | None \<Rightarrow>
           (let doc = \<lparr>sid = newId, movieId = b_movieId body, cinemaId = b_cinemaId body,
                       screenId = b_screenId body, startTime = b_startTime body,
                       endTime = endT, date = b_date body,
                       price = js_or (b_price body) (priceList cinema),
                       availableSeats = seats_total screen, bookedSeats = default_bookedSeats,
                       status = default_status, isActive = default_isActive\<rparr>
            in case Showtime_create doc st of
                 Inl e \<Rightarrow> (Inl e, st)
               | Inr st' \<Rightarrow> (Inr (201, doc), st')))"
    unfolding assms(4) createShowtime_def Let_def by (simp add: assms(1-3))
  have hit: "createShowtime tz newId body st
               = (Inl (Failure 400 ''Time slot conflicts with existing showtime''), st)"
    if "\<exists>r \<in> set (showtimes st). ?meets r"
  proof -
    from that have "find (conflict_query body endT) (showtimes st) \<noteq> None"
      unfolding find_None_iff q by blast
    then show ?thesis unfolding unfold by (auto split: option.splits)
  qed
  have miss: "\<exists>doc. createShowtime tz newId body st
                        = (Inr (201, doc), st\<lparr>showtimes := showtimes st @ [doc]\<rparr>) \<and>
                      startTime doc = b_startTime body \<and> endTime doc = endT"
    if "\<forall>r \<in> set (showtimes st). \<not> ?meets r" "newId \<notin> set (map sid (showtimes st))"
  proof -
    from that(1) have "find (conflict_query body endT) (showtimes st) = None"
      unfolding find_None_iff q by blast
    then show ?thesis
      unfolding unfold using that(2) by (simp add: Showtime_create_def Let_def)
  qed
  have only: "\<exists>r \<in> set (showtimes st). ?meets r"
    if "fst (createShowtime tz newId body st)
          = Inl (Failure 400 ''Time slot conflicts with existing showtime'')"
  proof (rule ccontr)
    assume "\<not> (\<exists>r \<in> set (showtimes st). ?meets r)"
    then have "find (conflict_query body endT) (showtimes st) = None"
      unfolding find_None_iff q by blast
    with that show False
      unfolding unfold by (auto simp: Showtime_create_def Let_def split: if_splits)
  qed
  have abut: "\<exists>doc. createShowtime tz newId body st
                        = (Inr (201, doc), st\<lparr>showtimes := showtimes st @ [doc]\<rparr>) \<and>
                      startTime doc = b_startTime body \<and> endTime doc = endT"
    if "r0 \<in> set (showtimes st)" "endTime r0 = b_startTime body"
       "\<forall>r \<in> set (showtimes st).
               r \<noteq> r0 \<and> isActive r \<and> cinemaId r = b_cinemaId body \<and>
               screenId r = b_screenId body \<and> date r = b_date body
               \<longrightarrow> \<not> (startTime r < endT \<and> endTime r > b_startTime body)"
       "newId \<notin> set (map sid (showtimes st))" for r0
  proof -
    have "\<not> ?meets r" if "r \<in> set (showtimes st)" for r
    proof (cases "r = r0")
      case True
      with \<open>endTime r0 = b_startTime body\<close> show ?thesis by simp
    next
      case False
      with that \<open>\<forall>r \<in> set (showtimes st). _\<close> show ?thesis by blast
    qed
    then show ?thesis using miss that(4) by blast
  qed
  show ?thesis
    using hit only miss abut by blast
qed

theorem createShowtime_conflict_witness:
  "createShowtime (fixed_zone 0) 2 (demo_body (15 * 3600000) JUndefined)
      (demo_store [demo_showtime 1 (14 * 3600000)])
     = (Inl (Failure 400 ''Time slot conflicts with existing showtime''),
        demo_store [demo_showtime 1 (14 * 3600000)]) \<and>
   endTime (demo_showtime 1 (14 * 3600000)) = 16 * 3600000 + 15 * 60000 \<and>
   createShowtime (fixed_zone 0) 2 (demo_body (16 * 3600000 + 15 * 60000) JUndefined)
      (demo_store [demo_showtime 1 (14 * 3600000)])
     = (Inr (201, demo_showtime 2 58500000),
        demo_store [demo_showtime 1 (14 * 3600000), demo_showtime 2 58500000])"
proof -
  let ?r = "demo_showtime 1 (14 * 3600000)"
  let ?st = "demo_store [?r]"
  have m: "Movie_findById (b_movieId (demo_body t JUndefined)) ?st = Some demo_movie"
    and c: "Cinema_findById (b_cinemaId (demo_body t JUndefined)) ?st = Some demo_cinema"
    and s: "screens_id demo_cinema (b_screenId (demo_body t JUndefined)) = Some demo_screen"
    for t
    by (simp_all add: handler_defs demo_defs)
  have e: "t + (120 + 15) * 60000
             = calc_endTime (fixed_zone 0) (b_startTime (demo_body t JUndefined))
                 (duration demo_movie)" for t
    by (simp add: demo_defs)
  note A = createShowtime_conflict [OF m c s e, of "15 * 3600000" 2]
  note B = createShowtime_conflict [OF m c s e, of "16 * 3600000 + 15 * 60000" 2]
  have meets: "\<exists>r \<in> set (showtimes ?st).
      isActive r \<and> cinemaId r = b_cinemaId (demo_body (15 * 3600000) JUndefined) \<and>
      screenId r = b_screenId (demo_body (15 * 3600000) JUndefined) \<and>
      date r = b_date (demo_body (15 * 3600000) JUndefined) \<and>
      startTime r < 15 * 3600000 + (120 + 15) * 60000 \<and>
      endTime r > b_startTime (demo_body (15 * 3600000) JUndefined)"
    by (simp add: demo_defs)
  have 1: "createShowtime (fixed_zone 0) 2 (demo_body (15 * 3600000) JUndefined) ?st
             = (Inl (Failure 400 ''Time slot conflicts with existing showtime''), ?st)"
    using A meets by blast
  have 2: "endTime ?r = 16 * 3600000 + 15 * 60000"
    by (simp add: demo_defs)
  have abut: "?r \<in> set (showtimes ?st) \<and>
      endTime ?r = b_startTime (demo_body (16 * 3600000 + 15 * 60000) JUndefined) \<and>
      (\<forall>r \<in> set (showtimes ?st).
         r \<noteq> ?r \<and> isActive r \<and>
         cinemaId r = b_cinemaId (demo_body (16 * 3600000 + 15 * 60000) JUndefined) \<and>
         screenId r = b_screenId (demo_body (16 * 3600000 + 15 * 60000) JUndefined) \<and>
         date r = b_date (demo_body (16 * 3600000 + 15 * 60000) JUndefined)
         \<longrightarrow> \<not> (startTime r < 16 * 3600000 + 15 * 60000 + (120 + 15) * 60000 \<and>
                 endTime r > b_startTime (demo_body (16 * 3600000 + 15 * 60000) JUndefined))) \<and>
      2 \<notin> set (map sid (showtimes ?st))"
    by (simp add: demo_defs)
  from B abut obtain doc where
    d: "createShowtime (fixed_zone 0) 2 (demo_body (16 * 3600000 + 15 * 60000) JUndefined) ?st
          = (Inr (201, doc), ?st\<lparr>showtimes := showtimes ?st @ [doc]\<rparr>)"
       "startTime doc = b_startTime (demo_body (16 * 3600000 + 15 * 60000) JUndefined)"
       "endTime doc = 16 * 3600000 + 15 * 60000 + (120 + 15) * 60000"
    by blast
  have 3: "createShowtime (fixed_zone 0) 2 (demo_body (16 * 3600000 + 15 * 60000) JUndefined) ?st
     = (Inr (201, demo_showtime 2 58500000),
        demo_store [demo_showtime 1 (14 * 3600000), demo_showtime 2 58500000])"
    using createShowtime_demo_abutting by simp
  from 1 2 3 d show ?thesis by blast
qed

text \<open>
  Claim C8. A create whose movie or cinema is missing, or whose screen is not a screen of
  the cinema, answers 404 with \<open>success: false\<close> and leaves the store as it was.
\<close>

theorem createShowtime_not_found:
  assumes "Movie_findById (b_movieId body) st = None \<or>
           Cinema_findById (b_cinemaId body) st = None \<or>
           (\<exists>cinema. Cinema_findById (b_cinemaId body) st = Some cinema \<and>
                     screens_id cinema (b_screenId body) = None)"
  shows "(fst (createShowtime tz newId body st) = Inl (Failure 404 ''Movie or Cinema not found'') \<or>
          fst (createShowtime tz newId body st) = Inl (Failure 404 ''Screen not found'')) \<and>
         snd (createShowtime tz newId body st) = st"
  using assms unfolding createShowtime_def
  by (auto split: option.splits)

theorem createShowtime_not_found_witness:
  "createShowtime (fixed_zone 0) 1 ((demo_body 50400000 JUndefined)\<lparr>b_movieId := 9\<rparr>) (demo_store [])
     = (Inl (Failure 404 ''Movie or Cinema not found''), demo_store []) \<and>
   createShowtime (fixed_zone 0) 1 ((demo_body 50400000 JUndefined)\<lparr>b_cinemaId := 9\<rparr>) (demo_store [])
     = (Inl (Failure 404 ''Movie or Cinema not found''), demo_store []) \<and>
   createShowtime (fixed_zone 0) 1 ((demo_body 50400000 JUndefined)\<lparr>b_screenId := 9\<rparr>) (demo_store [])
     = (Inl (Failure 404 ''Screen not found''), demo_store [])"
proof -
  have 1: "Movie_findById (b_movieId ((demo_body 50400000 JUndefined)\<lparr>b_movieId := 9\<rparr>))
             (demo_store []) = None"
    by (simp add: handler_defs demo_defs)
  have 2: "Cinema_findById (b_cinemaId ((demo_body 50400000 JUndefined)\<lparr>b_cinemaId := 9\<rparr>))
             (demo_store []) = None"
    by (simp add: handler_defs demo_defs)
  have 3: "\<exists>cinema. Cinema_findById (b_cinemaId ((demo_body 50400000 JUndefined)\<lparr>b_screenId := 9\<rparr>))
             (demo_store []) = Some cinema \<and>
           screens_id cinema (b_screenId ((demo_body 50400000 JUndefined)\<lparr>b_screenId := 9\<rparr>)) = None"
    by (simp add: handler_defs demo_defs)
  note A = createShowtime_not_found [OF disjI1, OF 1, of "fixed_zone 0" 1]
  note B = createShowtime_not_found [OF disjI2, OF disjI1, OF 2, of "fixed_zone 0" 1]
  note C = createShowtime_not_found [OF disjI2, OF disjI2, OF 3, of "fixed_zone 0" 1]
  have a: "createShowtime (fixed_zone 0) 1 ((demo_body 50400000 JUndefined)\<lparr>b_movieId := 9\<rparr>) (demo_store [])
     = (Inl (Failure 404 ''Movie or Cinema not found''), demo_store [])"
    using A unfolding createShowtime_def by (simp add: handler_defs demo_defs)
  have b: "createShowtime (fixed_zone 0) 1 ((demo_body 50400000 JUndefined)\<lparr>b_cinemaId := 9\<rparr>) (demo_store [])
     = (Inl (Failure 404 ''Movie or Cinema not found''), demo_store [])"
    using B unfolding createShowtime_def by (simp add: handler_defs demo_defs)
  have c: "createShowtime (fixed_zone 0) 1 ((demo_body 50400000 JUndefined)\<lparr>b_screenId := 9\<rparr>) (demo_store [])
     = (Inl (Failure 404 ''Screen not found''), demo_store [])"
    using C unfolding createShowtime_def by (simp add: handler_defs demo_defs)
  from a b c show ?thesis by blast
qed

text \<open>
  Claim C4 as stated fails for a falsy price: a create with \<open>price = 0\<close> stores the
  cinema's price list, not 0.
\<close>

theorem createShowtime_price_falsy_counterexample:
  "createShowtime (fixed_zone 0) 1 (demo_body 50400000 (JNum 0)) (demo_store [])
     = (Inr (201, demo_showtime 1 50400000), demo_store [demo_showtime 1 50400000]) \<and>
   price (demo_showtime 1 50400000) = priceList demo_cinema \<and>
   price (demo_showtime 1 50400000) \<noteq> b_price (demo_body 50400000 (JNum 0))"
  using createShowtime_demo_zero by (simp add: demo_defs)

text \<open>
  Claim C4, amended. A successful create persists and returns a showtime whose
  \<open>availableSeats\<close> is the screen's seat total, with no booked seats, active, and whose
  price is the supplied price when that is truthy and the cinema's price list otherwise.
\<close>

theorem createShowtime_fields:
  assumes "createShowtime tz newId body st = (Inr (code, doc), st')"
      and "Cinema_findById (b_cinemaId body) st = Some cinema"
      and "screens_id cinema (b_screenId body) = Some screen"
  shows "availableSeats doc = seats_total screen \<and>
         bookedSeats doc = [] \<and>
         isActive doc = True \<and>
         price doc = (if truthy (b_price body) then b_price body else priceList cinema) \<and>
         code = 201 \<and>
         showtimes st' = showtimes st @ [doc]"
  using createShowtime_success [OF assms(1)] assms(2,3) by (auto simp: js_or_def)

theorem createShowtime_fields_witness:
  "createShowtime (fixed_zone 0) 1 (demo_body 50400000 (JNum 0)) (demo_store [])
     = (Inr (201, demo_showtime 1 50400000), demo_store [demo_showtime 1 50400000]) \<and>
   Cinema_findById (b_cinemaId (demo_body 50400000 (JNum 0))) (demo_store []) = Some demo_cinema \<and>
   screens_id demo_cinema (b_screenId (demo_body 50400000 (JNum 0))) = Some demo_screen \<and>
   availableSeats (demo_showtime 1 50400000) = seats_total demo_screen \<and>
   bookedSeats (demo_showtime 1 50400000) = [] \<and>
   isActive (demo_showtime 1 50400000) \<and>
   price (demo_showtime 1 50400000) = priceList demo_cinema \<and>
   createShowtime (fixed_zone 0) 1 (demo_body 50400000 (JObj [(''standard'', 95000)])) (demo_store [])
     = (Inr (201, (demo_showtime 1 50400000)\<lparr>price := JObj [(''standard'', 95000)]\<rparr>),
        demo_store [(demo_showtime 1 50400000)\<lparr>price := JObj [(''standard'', 95000)]\<rparr>]) \<and>
   price ((demo_showtime 1 50400000)\<lparr>price := JObj [(''standard'', 95000)]\<rparr>)
     = b_price (demo_body 50400000 (JObj [(''standard'', 95000)]))"
proof -
  have c: "Cinema_findById (b_cinemaId (demo_body 50400000 p)) (demo_store [])
             = Some demo_cinema"
    and s: "screens_id demo_cinema (b_screenId (demo_body 50400000 p)) = Some demo_screen" for p
    by (simp_all add: handler_defs demo_defs)
  have 1: "availableSeats (demo_showtime 1 50400000) = seats_total demo_screen \<and>
           bookedSeats (demo_showtime 1 50400000) = [] \<and>
           isActive (demo_showtime 1 50400000) \<and>
           price (demo_showtime 1 50400000) = priceList demo_cinema"
    using createShowtime_fields [OF createShowtime_demo_zero c s] by (simp add: demo_defs)
  have 2: "price ((demo_showtime 1 50400000)\<lparr>price := JObj [(''standard'', 95000)]\<rparr>)
             = b_price (demo_body 50400000 (JObj [(''standard'', 95000)]))"
    using createShowtime_fields [OF createShowtime_demo_priced c s] by (simp add: demo_body_def)
  from 1 2 createShowtime_demo_zero createShowtime_demo_priced c [of "JNum 0"] s [of "JNum 0"]
  show ?thesis by blast
qed

lemma length_replace_by_id [simp]: "length (replace_by_id doc xs) = length xs"
  by (induction xs) auto

lemma map_sid_replace_by_id [simp]: "map sid (replace_by_id doc xs) = map sid xs"
  by (induction xs) auto

lemma replace_by_id_update:
  "find (\<lambda>r. sid r = sid doc) xs = Some r \<Longrightarrow>
   \<exists>k < length xs. xs ! k = r \<and> replace_by_id doc xs = xs[k := doc]"
proof (induction xs)
  case Nil
  then show ?case by simp
next
  case (Cons a xs)
  show ?case
  proof (cases "sid a = sid doc")
    case True
    with Cons.prems have "a = r" by simp
    with True show ?thesis by (intro exI [of _ 0]) simp
  next
    case False
    with Cons.prems have "find (\<lambda>r. sid r = sid doc) xs = Some r" by simp
    from Cons.IH [OF this] obtain k where "k < length xs" "xs ! k = r"
      "replace_by_id doc xs = xs[k := doc]" by blast
    with False show ?thesis by (intro exI [of _ "Suc k"]) simp
  qed
qed

lemma find_replace_by_id:
  "find (\<lambda>r. sid r = sid doc) xs = Some r \<Longrightarrow>
   find (\<lambda>r. sid r = sid doc) (replace_by_id doc xs) = Some doc"
  by (induction xs) (auto split: if_splits)

lemma replace_by_id_idem [simp]:
  "replace_by_id doc (replace_by_id doc xs) = replace_by_id doc xs"
  by (induction xs) auto

lemma find_sid: "find (\<lambda>r. sid r = i) xs = Some r \<Longrightarrow> sid r = i \<and> r \<in> set xs"
  by (auto simp: find_Some_iff)

lemma deleteShowtime_success:
  assumes "deleteShowtime i st = (Inr ok, st')"
  shows "\<exists>r. Showtime_findById i st = Some r \<and> sid r = i \<and> bookedSeats r = [] \<and>
             ok = (200, ''Showtime deleted successfully'') \<and>
             st' = save (r\<lparr>isActive := False\<rparr>) st"
  using assms unfolding deleteShowtime_def Showtime_findById_def
  by (auto split: option.splits if_splits dest: find_sid)

lemma distinct_sid_inactive:
  assumes "distinct (map sid xs)" "find (\<lambda>r. sid r = sid doc) xs = Some r"
      and "x \<in> set (replace_by_id doc xs)" "sid x = sid doc"
  shows "x = doc"
proof -
  from replace_by_id_update [OF assms(2)] obtain k where k: "k < length xs"
    "replace_by_id doc xs = xs[k := doc]" by blast
  from assms(3) obtain j where j: "j < length xs" "(xs[k := doc]) ! j = x"
    by (metis in_set_conv_nth k(2) length_list_update)
  have d: "distinct (map sid (replace_by_id doc xs))" using assms(1) by simp
  have "sid ((xs[k := doc]) ! j) = sid ((xs[k := doc]) ! k)"
    using j k assms(4) by simp
  with d k j have "j = k"
    by (metis distinct_conv_nth length_list_update length_map nth_map)
  with j k show ?thesis by simp
qed


lemma set_limit_skip: "limit_skip n k xs = Inr ys \<Longrightarrow> set ys \<subseteq> set xs"
  unfolding limit_skip_def Let_def
  by (auto split: if_splits dest: in_set_takeD in_set_dropD)

lemma set_find_sorted [simp]: "set (find_sorted q st) = {x \<in> set (showtimes st). q x}"
  by (auto simp: find_sorted_def)

lemma listed_getShowtimes:
  assumes "x \<in> set (listed (getShowtimes tz now rq st))"
  shows "x \<in> set (showtimes st) \<and> getShowtimes_query tz now rq x"
proof -
  from assms obtain code rep where r: "getShowtimes tz now rq st = Inr (code, rep)"
    and x: "x \<in> set (lr_showtimes rep)"
    by (cases "getShowtimes tz now rq st") (auto simp: listed_def)
  from r obtain n k where "limit_skip n k (find_sorted (getShowtimes_query tz now rq) st)
      = Inr (lr_showtimes rep)"
    unfolding getShowtimes_def Let_def by (auto split: sum.splits)
  from set_limit_skip [OF this] x show ?thesis by auto
qed

lemma listed_getShowtimesByMovie:
  "x \<in> set (listed_by (getShowtimesByMovie tz now m rq st)) \<longleftrightarrow>
   x \<in> set (showtimes st) \<and> getShowtimesByMovie_query tz now m rq x"
  by (simp add: listed_by_def getShowtimesByMovie_def Let_def)

lemma listed_getShowtimesByCinema:
  "x \<in> set (listed_by (getShowtimesByCinema tz now c rq st)) \<longleftrightarrow>
   x \<in> set (showtimes st) \<and> getShowtimesByCinema_query tz now c rq x"
  by (simp add: listed_by_def getShowtimesByCinema_def Let_def)

lemma deleteShowtime_found:
  assumes "Showtime_findById i st = Some r"
  shows "deleteShowtime i st =
           (if bookedSeats r \<noteq> []
            then (Inl (Failure 400 ''Cannot delete showtime with existing bookings''), st)
            else (Inr (200, ''Showtime deleted successfully''), save (r\<lparr>isActive := False\<rparr>) st))"
  using assms by (simp add: deleteShowtime_def)

text \<open>
  Claim C5. For a stored showtime, delete answers 400 (existing bookings) and leaves the
  store as it was when \<open>bookedSeats\<close> is not empty; when it is empty delete succeeds, the
  stored record becomes inactive, and in a collection with unique ids no reply of the
  three public listing handlers carries a record with that id.
\<close>

theorem deleteShowtime_bookings:
  assumes "Showtime_findById i st = Some r"
  shows "(bookedSeats r \<noteq> [] \<longrightarrow>
            deleteShowtime i st
              = (Inl (Failure 400 ''Cannot delete showtime with existing bookings''), st)) \<and>
         (bookedSeats r = [] \<longrightarrow>
            deleteShowtime i st
              = (Inr (200, ''Showtime deleted successfully''), save (r\<lparr>isActive := False\<rparr>) st) \<and>
            Showtime_findById i (snd (deleteShowtime i st)) = Some (r\<lparr>isActive := False\<rparr>) \<and>
            (distinct (map sid (showtimes st)) \<longrightarrow>
               (\<forall>tz now rq. \<forall>x \<in> set (listed (getShowtimes tz now rq (snd (deleteShowtime i st)))).
                  sid x \<noteq> i) \<and>
               (\<forall>tz now m rq.
                  \<forall>x \<in> set (listed_by (getShowtimesByMovie tz now m rq (snd (deleteShowtime i st)))).
                  sid x \<noteq> i) \<and>
               (\<forall>tz now c rq.
                  \<forall>x \<in> set (listed_by (getShowtimesByCinema tz now c rq (snd (deleteShowtime i st)))).
                  sid x \<noteq> i)))"
proof (intro conjI impI)
  assume "bookedSeats r \<noteq> []"
  then show "deleteShowtime i st
               = (Inl (Failure 400 ''Cannot delete showtime with existing bookings''), st)"
    by (simp add: deleteShowtime_found [OF assms])
next
  assume e: "bookedSeats r = []"
  then show "deleteShowtime i st
              = (Inr (200, ''Showtime deleted successfully''), save (r\<lparr>isActive := False\<rparr>) st)"
    by (simp add: deleteShowtime_found [OF assms])
next
  assume e: "bookedSeats r = []"
  let ?doc = "r\<lparr>isActive := False\<rparr>"
  have i: "sid ?doc = i" using assms find_sid by (fastforce simp: Showtime_findById_def)
  have f: "find (\<lambda>x. sid x = sid ?doc) (showtimes st) = Some r"
    using assms i by (simp add: Showtime_findById_def)
  show "Showtime_findById i (snd (deleteShowtime i st)) = Some ?doc"
    using find_replace_by_id [OF f] e i
    by (simp add: deleteShowtime_found [OF assms] Showtime_findById_def save_def)
next
  assume e: "bookedSeats r = []" and d: "distinct (map sid (showtimes st))"
  let ?doc = "r\<lparr>isActive := False\<rparr>"
  let ?st' = "snd (deleteShowtime i st)"
  have i: "sid ?doc = i" using assms find_sid by (fastforce simp: Showtime_findById_def)
  have f: "find (\<lambda>x. sid x = sid ?doc) (showtimes st) = Some r"
    using assms i by (simp add: Showtime_findById_def)
  have st': "showtimes ?st' = replace_by_id ?doc (showtimes st)"
    using e by (simp add: deleteShowtime_found [OF assms] save_def)
  have inactive: "\<not> isActive x" if "x \<in> set (showtimes ?st')" "sid x = i" for x
    using distinct_sid_inactive [OF d f, of x] that st' i by auto
  show "\<forall>tz now rq. \<forall>x \<in> set (listed (getShowtimes tz now rq ?st')). sid x \<noteq> i"
    using inactive listed_getShowtimes by (fastforce simp: getShowtimes_query_def)
  show "\<forall>tz now m rq. \<forall>x \<in> set (listed_by (getShowtimesByMovie tz now m rq ?st')). sid x \<noteq> i"
    using inactive by (auto simp: listed_getShowtimesByMovie getShowtimesByMovie_query_def)
  show "\<forall>tz now c rq. \<forall>x \<in> set (listed_by (getShowtimesByCinema tz now c rq ?st')). sid x \<noteq> i"
    using inactive by (auto simp: listed_getShowtimesByCinema getShowtimesByCinema_query_def)
qed

text \<open>
  Claim C9. A successful delete rewrites one stored showtime, the one with the given id,
  and only its \<open>isActive\<close> field: every other field of that record, every other showtime,
  the movies and the cinemas are as before.
\<close>

theorem deleteShowtime_frame:
  assumes "deleteShowtime i st = (Inr ok, st')"
  shows "\<exists>k < length (showtimes st).
           sid (showtimes st ! k) = i \<and>
           showtimes st' = (showtimes st)[k := (showtimes st ! k)\<lparr>isActive := False\<rparr>] \<and>
           (\<forall>j < length (showtimes st). j \<noteq> k \<longrightarrow> showtimes st' ! j = showtimes st ! j) \<and>
           isActive (showtimes st' ! k) = False \<and>
           movieId (showtimes st' ! k) = movieId (showtimes st ! k) \<and>
           cinemaId (showtimes st' ! k) = cinemaId (showtimes st ! k) \<and>
           screenId (showtimes st' ! k) = screenId (showtimes st ! k) \<and>
           date (showtimes st' ! k) = date (showtimes st ! k) \<and>
           startTime (showtimes st' ! k) = startTime (showtimes st ! k) \<and>
           endTime (showtimes st' ! k) = endTime (showtimes st ! k) \<and>
           price (showtimes st' ! k) = price (showtimes st ! k) \<and>
           availableSeats (showtimes st' ! k) = availableSeats (showtimes st ! k) \<and>
           bookedSeats (showtimes st' ! k) = bookedSeats (showtimes st ! k) \<and>
           sid (showtimes st' ! k) = sid (showtimes st ! k) \<and>
           movies st' = movies st \<and> cinemas st' = cinemas st"
proof -
  from deleteShowtime_success [OF assms] obtain r where
    r: "Showtime_findById i st = Some r" "sid r = i"
       "st' = save (r\<lparr>isActive := False\<rparr>) st" by blast
  let ?doc = "r\<lparr>isActive := False\<rparr>"
  have "find (\<lambda>x. sid x = sid ?doc) (showtimes st) = Some r"
    using r by (simp add: Showtime_findById_def)
  from replace_by_id_update [OF this] obtain k where
    k: "k < length (showtimes st)" "showtimes st ! k = r"
       "replace_by_id ?doc (showtimes st) = (showtimes st)[k := ?doc]" by blast
  show ?thesis
    using k r by (intro exI [of _ k]) (simp add: save_def)
qed

text \<open>
  Claim C10. After a successful delete, a second delete of the same id finds the record
  (the deletion is soft), succeeds with the same reply and leaves the store as the first
  delete left it, the record inactive.
\<close>

theorem deleteShowtime_idempotent:
  assumes "deleteShowtime i st = (Inr ok, st')"
  shows "deleteShowtime i st' = (Inr ok, st') \<and>
         (\<exists>r. Showtime_findById i st' = Some r \<and> isActive r = False)"
proof -
  from deleteShowtime_success [OF assms] obtain r where
    r: "Showtime_findById i st = Some r" "sid r = i" "bookedSeats r = []"
       "ok = (200, ''Showtime deleted successfully'')"
       "st' = save (r\<lparr>isActive := False\<rparr>) st" by blast
  let ?doc = "r\<lparr>isActive := False\<rparr>"
  have "find (\<lambda>x. sid x = sid ?doc) (showtimes st) = Some r"
    using r by (simp add: Showtime_findById_def)
  from find_replace_by_id [OF this]
  have f: "Showtime_findById i st' = Some ?doc"
    using r by (simp add: Showtime_findById_def save_def)
  have s: "save ?doc st' = st'" using r by (simp add: save_def)
  have "deleteShowtime i st' = (Inr (200, ''Showtime deleted successfully''), save ?doc st')"
    using deleteShowtime_found [OF f] r(3) by simp
  with s f r(4) show ?thesis by simp
qed


lemma deleteShowtime_demo:
  "deleteShowtime 1 (demo_store [demo_showtime 1 50400000, demo_booked 2 58500000])
     = (Inr (200, ''Showtime deleted successfully''),
        demo_store [(demo_showtime 1 50400000)\<lparr>isActive := False\<rparr>, demo_booked 2 58500000])"
  by (simp add: deleteShowtime_def handler_defs demo_defs demo_booked_def)

theorem deleteShowtime_bookings_witness:
  "deleteShowtime 2 (demo_store [demo_showtime 1 50400000, demo_booked 2 58500000])
     = (Inl (Failure 400 ''Cannot delete showtime with existing bookings''),
        demo_store [demo_showtime 1 50400000, demo_booked 2 58500000]) \<and>
   deleteShowtime 1 (demo_store [demo_showtime 1 50400000, demo_booked 2 58500000])
     = (Inr (200, ''Showtime deleted successfully''),
        demo_store [(demo_showtime 1 50400000)\<lparr>isActive := False\<rparr>, demo_booked 2 58500000]) \<and>
   map sid (listed (getShowtimes (fixed_zone 0) 0 demo_query
      (demo_store [demo_showtime 1 50400000, demo_booked 2 58500000]))) = [1, 2] \<and>
   map sid (listed (getShowtimes (fixed_zone 0) 0 demo_query
      (snd (deleteShowtime 1 (demo_store [demo_showtime 1 50400000, demo_booked 2 58500000]))))) = [2]"
proof -
  let ?S = "demo_store [demo_showtime 1 50400000, demo_booked 2 58500000]"
  have f2: "Showtime_findById 2 ?S = Some (demo_booked 2 58500000)"
    and f1: "Showtime_findById 1 ?S = Some (demo_showtime 1 50400000)"
    by (simp_all add: handler_defs demo_defs demo_booked_def)
  have b2: "bookedSeats (demo_booked 2 58500000) \<noteq> []"
    and b1: "bookedSeats (demo_showtime 1 50400000) = []"
    and d: "distinct (map sid (showtimes ?S))"
    by (simp_all add: demo_defs demo_booked_def)
  note A = deleteShowtime_bookings [OF f2] and B = deleteShowtime_bookings [OF f1]
  have 1: "deleteShowtime 2 ?S
             = (Inl (Failure 400 ''Cannot delete showtime with existing bookings''), ?S)"
    using A b2 by blast
  have 2: "deleteShowtime 1 ?S = (Inr (200, ''Showtime deleted successfully''),
        demo_store [(demo_showtime 1 50400000)\<lparr>isActive := False\<rparr>, demo_booked 2 58500000])"
    using B b1 by (simp add: handler_defs demo_defs demo_booked_def)
  have 3: "map sid (listed (getShowtimes (fixed_zone 0) 0 demo_query ?S)) = [1, 2]"
    by (simp add: listing_defs demo_query_def demo_defs demo_booked_def)
  have 4: "map sid (listed (getShowtimes (fixed_zone 0) 0 demo_query (snd (deleteShowtime 1 ?S)))) = [2]"
    unfolding 2
    by (simp add: listing_defs demo_query_def demo_defs demo_booked_def)
  from 1 2 3 4 show ?thesis by blast
qed

theorem deleteShowtime_frame_witness:
  "deleteShowtime 1 (demo_store [demo_showtime 1 50400000, demo_booked 2 58500000])
     = (Inr (200, ''Showtime deleted successfully''),
        demo_store [(demo_showtime 1 50400000)\<lparr>isActive := False\<rparr>, demo_booked 2 58500000]) \<and>
   showtimes (demo_store [(demo_showtime 1 50400000)\<lparr>isActive := False\<rparr>, demo_booked 2 58500000])
     = (showtimes (demo_store [demo_showtime 1 50400000, demo_booked 2 58500000]))
         [0 := (demo_showtime 1 50400000)\<lparr>isActive := False\<rparr>]"
  using deleteShowtime_frame [OF deleteShowtime_demo] deleteShowtime_demo
  by (simp add: demo_store_def)

theorem deleteShowtime_idempotent_witness:
  "deleteShowtime 1 (demo_store [demo_showtime 1 50400000, demo_booked 2 58500000])
     = (Inr (200, ''Showtime deleted successfully''),
        demo_store [(demo_showtime 1 50400000)\<lparr>isActive := False\<rparr>, demo_booked 2 58500000]) \<and>
   deleteShowtime 1
      (demo_store [(demo_showtime 1 50400000)\<lparr>isActive := False\<rparr>, demo_booked 2 58500000])
     = (Inr (200, ''Showtime deleted successfully''),
        demo_store [(demo_showtime 1 50400000)\<lparr>isActive := False\<rparr>, demo_booked 2 58500000])"
  using deleteShowtime_idempotent [OF deleteShowtime_demo] deleteShowtime_demo
  by simp

lemma find_save:
  assumes "Showtime_findById i st = Some r" "sid doc = i"
  shows "Showtime_findById i (save doc st) = Some doc"
  using find_replace_by_id [of doc "showtimes st" r] assms
  by (simp add: Showtime_findById_def save_def)

text \<open>
  Claim C6. For a showtime whose interval is well formed, \<open>updateStatus\<close> gives
  \<open>upcoming\<close> before \<open>startTime\<close>, \<open>ongoing\<close> from \<open>startTime\<close> to \<open>endTime\<close> and \<open>ended\<close> after
  \<open>endTime\<close>, a function of the current time and the two bounds alone; fetching one
  showtime returns the record with the recomputed status and stores it.
\<close>

theorem getShowtime_status:
  assumes "Showtime_findById i st = Some r" and "startTime r \<le> endTime r"
  shows "(now < startTime r \<longrightarrow> status (updateStatus now r) = Upcoming) \<and>
         (startTime r \<le> now \<and> now \<le> endTime r \<longrightarrow> status (updateStatus now r) = Ongoing) \<and>
         (endTime r < now \<longrightarrow> status (updateStatus now r) = Ended) \<and>
         updateStatus now r = r\<lparr>status := computeStatus now (startTime r) (endTime r)\<rparr> \<and>
         getShowtime now i st = (Inr (200, updateStatus now r), save (updateStatus now r) st) \<and>
         Showtime_findById i (snd (getShowtime now i st)) = Some (updateStatus now r)"
proof -
  have i: "sid (updateStatus now r) = i"
    using assms(1) find_sid by (fastforce simp: Showtime_findById_def updateStatus_def)
  have g: "getShowtime now i st = (Inr (200, updateStatus now r), save (updateStatus now r) st)"
    using assms(1) by (simp add: getShowtime_def Let_def)
  have w: "Showtime_findById i (snd (getShowtime now i st)) = Some (updateStatus now r)"
    unfolding g using find_save [OF assms(1) i] by simp
  have s: "(now < startTime r \<longrightarrow> status (updateStatus now r) = Upcoming) \<and>
         (startTime r \<le> now \<and> now \<le> endTime r \<longrightarrow> status (updateStatus now r) = Ongoing) \<and>
         (endTime r < now \<longrightarrow> status (updateStatus now r) = Ended)"
    using assms(2) by (simp add: updateStatus_def computeStatus_def)
  from s g w show ?thesis by (simp add: updateStatus_def)
qed

theorem getShowtime_status_witness:
  "Showtime_findById 1 (demo_store [demo_showtime 1 50400000])
     = Some (demo_showtime 1 50400000) \<and>
   startTime (demo_showtime 1 50400000) \<le> endTime (demo_showtime 1 50400000) \<and>
   fst (getShowtime 0 1 (demo_store [demo_showtime 1 50400000]))
     = Inr (200, (demo_showtime 1 50400000)\<lparr>status := Upcoming\<rparr>) \<and>
   getShowtime 54000000 1 (demo_store [demo_showtime 1 50400000])
     = (Inr (200, (demo_showtime 1 50400000)\<lparr>status := Ongoing\<rparr>),
        demo_store [(demo_showtime 1 50400000)\<lparr>status := Ongoing\<rparr>]) \<and>
   getShowtime 58500001 1 (demo_store [demo_showtime 1 50400000])
     = (Inr (200, (demo_showtime 1 50400000)\<lparr>status := Ended\<rparr>),
        demo_store [(demo_showtime 1 50400000)\<lparr>status := Ended\<rparr>])"
proof -
  let ?S = "demo_store [demo_showtime 1 50400000]"
  have f: "Showtime_findById 1 ?S = Some (demo_showtime 1 50400000)"
    and l: "startTime (demo_showtime 1 50400000) \<le> endTime (demo_showtime 1 50400000)"
    by (simp_all add: handler_defs demo_defs)
  note T = getShowtime_status [OF f l]
  have 1: "fst (getShowtime 0 1 ?S) = Inr (200, (demo_showtime 1 50400000)\<lparr>status := Upcoming\<rparr>)"
    using T [of 0] by (simp add: updateStatus_def computeStatus_def demo_defs)
  have 2: "getShowtime 54000000 1 ?S
     = (Inr (200, (demo_showtime 1 50400000)\<lparr>status := Ongoing\<rparr>),
        demo_store [(demo_showtime 1 50400000)\<lparr>status := Ongoing\<rparr>])"
    using T [of 54000000] by (simp add: updateStatus_def computeStatus_def save_def demo_defs)
  have 3: "getShowtime 58500001 1 ?S
     = (Inr (200, (demo_showtime 1 50400000)\<lparr>status := Ended\<rparr>),
        demo_store [(demo_showtime 1 50400000)\<lparr>status := Ended\<rparr>])"
    using T [of 58500001] by (simp add: updateStatus_def computeStatus_def save_def demo_defs)
  from f l 1 2 3 show ?thesis by blast
qed

lemma setHours_midnight:
  "setHours (fixed_zone off) t 0 0 0 0
     = Day (LocalTime (fixed_zone off) t) * msPerDay - off * msPerMinute"
  by (simp add: setHours_def MakeDate_def UTC_def fixed_zone_def)

lemma Day_setHours_midnight:
  "Day (LocalTime (fixed_zone off) (setHours (fixed_zone off) t 0 0 0 0))
     = Day (LocalTime (fixed_zone off) t)"
  by (simp add: setHours_midnight) (simp add: LocalTime_def fixed_zone_def Day_def msPerDay_def)

lemma setHours_end_of_day:
  "setHours (fixed_zone off) (setHours (fixed_zone off) t 0 0 0 0) 23 59 59 999
     = setHours (fixed_zone off) t 23 59 59 999"
  by (simp add: setHours_def [of _ _ 23] Day_setHours_midnight)

lemma end_of_day:
  "setHours (fixed_zone off) t 23 59 59 999 = setHours (fixed_zone off) t 0 0 0 0 + (msPerDay - 1)"
  by (simp add: setHours_def MakeDate_def UTC_def fixed_zone_def msPerDay_def msPerHour_def
      msPerMinute_def msPerSecond_def)

lemma same_day_iff:
  "setHours (fixed_zone off) t 0 0 0 0 \<le> u \<and>
   u \<le> setHours (fixed_zone off) (setHours (fixed_zone off) t 0 0 0 0) 23 59 59 999 \<longleftrightarrow>
   Day (LocalTime (fixed_zone off) u) = Day (LocalTime (fixed_zone off) t)"
proof -
  have "d * 86400000 \<le> l \<and> l \<le> d * 86400000 + 86399999 \<longleftrightarrow> l div 86400000 = d" for l d :: int
    by auto
  from this [of "Day (LocalTime (fixed_zone off) t)" "LocalTime (fixed_zone off) u"] show ?thesis
    unfolding setHours_end_of_day end_of_day setHours_midnight
    by (simp add: LocalTime_def fixed_zone_def Day_def msPerDay_def algebra_simps)
qed

lemma startTime_cond_Some:
  "startTime_cond tz now (Some t) r \<longleftrightarrow>
   setHours tz t 0 0 0 0 \<le> startTime r \<and>
   startTime r \<le> setHours tz (setHours tz t 0 0 0 0) 23 59 59 999"
  by (simp add: startTime_cond_def Let_def)

lemma sorted_find_sorted: "sorted (map startTime (find_sorted q st))"
  by (simp add: find_sorted_def)

lemma limit_skip_pos:
  "0 \<le> k \<Longrightarrow> 0 < n \<Longrightarrow> limit_skip n k xs = Inr (take (nat n) (drop (nat k) xs))"
  by (simp add: limit_skip_def Let_def)

lemma sorted_limit_skip:
  assumes "limit_skip n k xs = Inr ys" "sorted (map f xs)"
  shows "sorted (map f ys)"
proof -
  have "sorted (map f (drop a xs))" for a
    using assms(2) by (simp add: drop_map [symmetric] sorted_wrt_drop)
  then have "sorted (map f (take b (drop a xs)))" for a b
    by (simp add: take_map [symmetric] sorted_wrt_take)
  with assms(1) \<open>\<And>a. sorted (map f (drop a xs))\<close> show ?thesis
    by (auto simp: limit_skip_def Let_def split: if_splits)
qed

lemma ceil_div_pos:
  "0 < l \<Longrightarrow> ceil_div c l = Some \<lceil>real_of_int c / real_of_int l\<rceil>"
  by (simp add: ceil_div_def ceiling_divide_eq_div)

lemma listing_ok_find_sorted:
  assumes "\<And>x. q x \<Longrightarrow> isActive x \<and> startTime_cond tz now d x"
      and "set xs \<subseteq> set (find_sorted q st)" "sorted (map startTime xs)"
  shows "listing_ok tz now d xs"
proof -
  have a: "isActive x \<and> startTime_cond tz now d x" if "x \<in> set xs" for x
    using that assms(1,2) by auto
  show ?thesis
  proof (cases d)
    case None
    with a assms(3) show ?thesis by (auto simp: listing_ok_def startTime_cond_def)
  next
    case (Some t)
    with a have "isActive x \<and> setHours tz t 0 0 0 0 \<le> startTime x \<and>
                 startTime x \<le> setHours tz (setHours tz t 0 0 0 0) 23 59 59 999"
      if "x \<in> set xs" for x
      using that startTime_cond_Some by blast
    with Some assms(3) show ?thesis by (simp add: listing_ok_def)
  qed
qed

lemma listing_ok_getShowtimes:
  "listing_ok tz now (q_date rq) (listed (getShowtimes tz now rq st))"
proof (cases "getShowtimes tz now rq st")
  case (Inl e)
  then show ?thesis by (cases "q_date rq") (simp_all add: listed_def listing_ok_def)
next
  case (Inr p)
  then obtain code rep where p: "p = (code, rep)" by (cases p)
  from Inr p obtain n k where
    ls: "limit_skip n k (find_sorted (getShowtimes_query tz now rq) st) = Inr (lr_showtimes rep)"
    unfolding getShowtimes_def Let_def by (auto split: sum.splits)
  have "listing_ok tz now (q_date rq) (lr_showtimes rep)"
  proof (rule listing_ok_find_sorted)
    show "isActive x \<and> startTime_cond tz now (q_date rq) x"
      if "getShowtimes_query tz now rq x" for x
      using that by (simp add: getShowtimes_query_def)
    show "set (lr_showtimes rep) \<subseteq> set (find_sorted (getShowtimes_query tz now rq) st)"
      by (rule set_limit_skip [OF ls])
    show "sorted (map startTime (lr_showtimes rep))"
      by (rule sorted_limit_skip [OF ls sorted_find_sorted])
  qed
  with Inr p show ?thesis by (simp add: listed_def)
qed

lemma listed_by_getShowtimesByMovie:
  "listed_by (getShowtimesByMovie tz now m rq st)
     = find_sorted (getShowtimesByMovie_query tz now m rq) st"
  by (simp add: listed_by_def getShowtimesByMovie_def Let_def)

lemma listed_by_getShowtimesByCinema:
  "listed_by (getShowtimesByCinema tz now c rq st)
     = find_sorted (getShowtimesByCinema_query tz now c rq) st"
  by (simp add: listed_by_def getShowtimesByCinema_def Let_def)

lemma listing_ok_getShowtimesByMovie:
  "listing_ok tz now (q_date rq) (listed_by (getShowtimesByMovie tz now m rq st))"
  unfolding listed_by_getShowtimesByMovie
  by (rule listing_ok_find_sorted [where q = "getShowtimesByMovie_query tz now m rq" and st = st])
     (simp_all add: getShowtimesByMovie_query_def sorted_find_sorted)

lemma listing_ok_getShowtimesByCinema:
  "listing_ok tz now (q_date rq) (listed_by (getShowtimesByCinema tz now c rq st))"
  unfolding listed_by_getShowtimesByCinema
  by (rule listing_ok_find_sorted [where q = "getShowtimesByCinema_query tz now c rq" and st = st])
     (simp_all add: getShowtimesByCinema_query_def sorted_find_sorted)

lemma getShowtimes_page:
  assumes "1 \<le> page_of rq" "1 \<le> limit_of rq"
  shows "getShowtimes tz now rq st =
           Inr (200,
             \<lparr>lr_count = length (take (nat (limit_of rq)) (drop (nat ((page_of rq - 1) * limit_of rq))
                            (find_sorted (getShowtimes_query tz now rq) st))),
              lr_total = length (filter (getShowtimes_query tz now rq) (showtimes st)),
              lr_totalPages = Some \<lceil>real (length (filter (getShowtimes_query tz now rq) (showtimes st)))
                                     / real_of_int (limit_of rq)\<rceil>,
              lr_currentPage = page_of rq,
              lr_showtimes = take (nat (limit_of rq)) (drop (nat ((page_of rq - 1) * limit_of rq))
                               (find_sorted (getShowtimes_query tz now rq) st))\<rparr>)"
proof -
  have k: "0 \<le> (page_of rq - 1) * limit_of rq" and n: "0 < limit_of rq * 1"
    using assms by simp_all
  have c: "ceil_div (int (length (filter (getShowtimes_query tz now rq) (showtimes st)))) (limit_of rq)
        = Some \<lceil>real (length (filter (getShowtimes_query tz now rq) (showtimes st)))
                 / real_of_int (limit_of rq)\<rceil>"
    using ceil_div_pos [of "limit_of rq"] assms(2) by simp
  show ?thesis
    unfolding getShowtimes_def Let_def limit_skip_pos [OF k n] c by simp
qed

text \<open>
  Claim C7 as stated fails for the two listings by movie and by cinema: they read no
  \<open>page\<close> or \<open>limit\<close> and return every match. With \<open>limit = 1\<close> the general listing returns
  one showtime and the other two return all three.
\<close>

theorem getShowtimesByMovie_unpaginated_counterexample:
  "limit_of (demo_query\<lparr>q_page := Some 1, q_limit := Some 1\<rparr>) = 1 \<and>
   map sid (listed (getShowtimes (fixed_zone 0) 0 (demo_query\<lparr>q_page := Some 1, q_limit := Some 1\<rparr>)
      demo_listing_store)) = [1] \<and>
   map sid (listed_by (getShowtimesByMovie (fixed_zone 0) 0 1 (demo_query\<lparr>q_page := Some 1, q_limit := Some 1\<rparr>)
      demo_listing_store)) = [1, 2, 4] \<and>
   map sid (listed_by (getShowtimesByCinema (fixed_zone 0) 0 1 (demo_query\<lparr>q_page := Some 1, q_limit := Some 1\<rparr>)
      demo_listing_store)) = [1, 2, 4]"
  by (simp add: listing_defs demo_query_def demo_defs demo_listing_store_def)

text \<open>
  Claim C7, amended. The replies of the three listing handlers carry only active
  showtimes, ascending by \<open>startTime\<close>, within the day of the date filter or, without one,
  not before \<open>now\<close>. The general listing alone is paginated: for \<open>page \<ge> 1\<close> and
  \<open>limit \<ge> 1\<close> it returns the matches from position \<open>(page - 1) * limit\<close> on, at most \<open>limit\<close>
  of them, with \<open>totalPages\<close> the ceiling of the number of matches over \<open>limit\<close>. The
  listings by movie and by cinema return all their matches.
\<close>

theorem listing_handlers:
  "listing_ok tz now (q_date rq) (listed (getShowtimes tz now rq st)) \<and>
   listing_ok tz now (q_date rq) (listed_by (getShowtimesByMovie tz now m rq st)) \<and>
   listing_ok tz now (q_date rq) (listed_by (getShowtimesByCinema tz now c rq st)) \<and>
   (1 \<le> page_of rq \<and> 1 \<le> limit_of rq \<longrightarrow>
      (\<exists>rep. getShowtimes tz now rq st = Inr (200, rep) \<and>
         lr_showtimes rep = take (nat (limit_of rq)) (drop (nat ((page_of rq - 1) * limit_of rq))
                              (find_sorted (getShowtimes_query tz now rq) st)) \<and>
         lr_count rep = length (lr_showtimes rep) \<and>
         lr_total rep = length (filter (getShowtimes_query tz now rq) (showtimes st)) \<and>
         lr_totalPages rep = Some \<lceil>real (lr_total rep) / real_of_int (limit_of rq)\<rceil> \<and>
         lr_currentPage rep = page_of rq)) \<and>
   listed_by (getShowtimesByMovie tz now m rq st)
     = sort_key startTime (filter (getShowtimesByMovie_query tz now m rq) (showtimes st)) \<and>
   listed_by (getShowtimesByCinema tz now c rq st)
     = sort_key startTime (filter (getShowtimesByCinema_query tz now c rq) (showtimes st))"
proof -
  have "\<exists>rep. getShowtimes tz now rq st = Inr (200, rep) \<and>
         lr_showtimes rep = take (nat (limit_of rq)) (drop (nat ((page_of rq - 1) * limit_of rq))
                              (find_sorted (getShowtimes_query tz now rq) st)) \<and>
         lr_count rep = length (lr_showtimes rep) \<and>
         lr_total rep = length (filter (getShowtimes_query tz now rq) (showtimes st)) \<and>
         lr_totalPages rep = Some \<lceil>real (lr_total rep) / real_of_int (limit_of rq)\<rceil> \<and>
         lr_currentPage rep = page_of rq"
    if "1 \<le> page_of rq \<and> 1 \<le> limit_of rq"
    using getShowtimes_page [of rq tz now st] that by simp
  then show ?thesis
    using listing_ok_getShowtimes listing_ok_getShowtimesByMovie listing_ok_getShowtimesByCinema
    by (simp add: listed_by_getShowtimesByMovie listed_by_getShowtimesByCinema find_sorted_def)
qed


theorem listing_handlers_witness:
  "1 \<le> page_of (demo_query\<lparr>q_page := Some 2, q_limit := Some 2\<rparr>) \<and>
   1 \<le> limit_of (demo_query\<lparr>q_page := Some 2, q_limit := Some 2\<rparr>) \<and>
   getShowtimes (fixed_zone 0) 0 (demo_query\<lparr>q_page := Some 2, q_limit := Some 2\<rparr>) demo_listing_store
     = Inr (200, \<lparr>lr_count = 1, lr_total = 3, lr_totalPages = Some 2, lr_currentPage = 2,
                  lr_showtimes = [demo_showtime 4 136800000]\<rparr>) \<and>
   listed_by (getShowtimesByCinema (fixed_zone 0) 0 1 (demo_query\<lparr>q_date := Some 54000000\<rparr>) demo_listing_store)
     = [demo_showtime 1 50400000, demo_showtime 2 58500000] \<and>
   listing_ok (fixed_zone 0) 0 (Some 54000000) [demo_showtime 1 50400000, demo_showtime 2 58500000]"
proof -
  let ?q = "demo_query\<lparr>q_page := Some 2, q_limit := Some 2\<rparr>"
  let ?d = "demo_query\<lparr>q_date := Some 54000000\<rparr>"
  have p: "1 \<le> page_of ?q \<and> 1 \<le> limit_of ?q"
    by (simp add: page_of_def limit_of_def demo_query_def)
  have f: "find_sorted (getShowtimes_query (fixed_zone 0) 0 ?q) demo_listing_store
             = [demo_showtime 1 50400000, demo_showtime 2 58500000, demo_showtime 4 136800000]"
    and n: "filter (getShowtimes_query (fixed_zone 0) 0 ?q) (showtimes demo_listing_store)
             = [demo_showtime 2 58500000, demo_showtime 1 50400000, demo_showtime 4 136800000]"
    by (simp_all add: listing_defs demo_query_def demo_defs demo_listing_store_def)
  from listing_handlers [of "fixed_zone 0" 0 ?q demo_listing_store 1 1] p
  obtain rep where rep: "getShowtimes (fixed_zone 0) 0 ?q demo_listing_store = Inr (200, rep)"
    "lr_showtimes rep = take (nat (limit_of ?q)) (drop (nat ((page_of ?q - 1) * limit_of ?q))
                              (find_sorted (getShowtimes_query (fixed_zone 0) 0 ?q) demo_listing_store))"
    "lr_count rep = length (lr_showtimes rep)"
    "lr_total rep = length (filter (getShowtimes_query (fixed_zone 0) 0 ?q) (showtimes demo_listing_store))"
    "lr_totalPages rep = Some \<lceil>real (lr_total rep) / real_of_int (limit_of ?q)\<rceil>"
    "lr_currentPage rep = page_of ?q"
    by blast
  have l: "limit_of ?q = 2" "page_of ?q = 2"
    by (simp_all add: page_of_def limit_of_def demo_query_def)
  have "rep = \<lparr>lr_count = 1, lr_total = 3, lr_totalPages = Some 2, lr_currentPage = 2,
                lr_showtimes = [demo_showtime 4 136800000]\<rparr>"
    using rep(2-6) unfolding f n l by simp
  with rep(1) have 1: "getShowtimes (fixed_zone 0) 0 ?q demo_listing_store
     = Inr (200, \<lparr>lr_count = 1, lr_total = 3, lr_totalPages = Some 2, lr_currentPage = 2,
                  lr_showtimes = [demo_showtime 4 136800000]\<rparr>)"
    by simp
  have 2: "listed_by (getShowtimesByCinema (fixed_zone 0) 0 1 ?d demo_listing_store)
             = [demo_showtime 1 50400000, demo_showtime 2 58500000]"
    by (simp add: listing_defs demo_query_def demo_defs demo_listing_store_def setHours_def
        MakeDate_def UTC_def LocalTime_def fixed_zone_def Day_def msPerDay_def msPerHour_def
        msPerMinute_def msPerSecond_def Let_def)
  from listing_handlers [of "fixed_zone 0" 0 ?d demo_listing_store 1 1]
  have "listing_ok (fixed_zone 0) 0 (q_date ?d) (listed_by (getShowtimesByCinema (fixed_zone 0) 0 1 ?d demo_listing_store))"
    by blast
  then have "listing_ok (fixed_zone 0) 0 (q_date ?d) [demo_showtime 1 50400000, demo_showtime 2 58500000]"
    by (simp only: 2)
  then have 3: "listing_ok (fixed_zone 0) 0 (Some 54000000)
                  [demo_showtime 1 50400000, demo_showtime 2 58500000]"
    by (simp add: demo_query_def)
  from p 1 2 3 show ?thesis by blast
qed

lemma interval_disjoint:
  "\<not> (startTime a < endTime b \<and> startTime b < endTime a) \<Longrightarrow> interval a \<inter> interval b = {}"
  by (auto simp: interval_def)

lemma no_overlap_create:
  assumes "no_overlap st"
  shows "no_overlap (snd (createShowtime tz newId body st))"
proof (cases "createShowtime tz newId body st")
  case (Pair rp st')
  show ?thesis
  proof (cases rp)
    case (Inl e)
    with Pair have "st' = st"
      unfolding createShowtime_def Let_def Showtime_create_def
      by (auto split: option.splits if_splits)
    with Pair assms show ?thesis by simp
  next
    case (Inr p)
    then obtain code doc where "rp = Inr (code, doc)" by (cases p) simp
    with Pair have c: "createShowtime tz newId body st = (Inr (code, doc), st')" by simp
    from createShowtime_success [OF c] obtain movie where
      nf: "find (conflict_query body (endTime doc)) (showtimes st) = None"
      and doc: "cinemaId doc = b_cinemaId body" "screenId doc = b_screenId body"
        "date doc = b_date body" "startTime doc = b_startTime body"
      and st': "showtimes st' = showtimes st @ [doc]"
      by auto
    have free: "interval r \<inter> interval doc = {}"
      if "r \<in> set (showtimes st)" "isActive r" "same_slot r doc" for r
    proof -
      from nf that(1) have "\<not> conflict_query body (endTime doc) r"
        by (simp add: find_None_iff)
      with that(2,3) doc have "\<not> (startTime r < endTime doc \<and> startTime doc < endTime r)"
        by (auto simp: conflict_query_def same_slot_def)
      then show ?thesis by (rule interval_disjoint)
    qed
    let ?xs = "showtimes st"
    have "interval ((?xs @ [doc]) ! i) \<inter> interval ((?xs @ [doc]) ! j) = {}"
      if h: "i < Suc (length ?xs)" "j < Suc (length ?xs)" "i \<noteq> j"
        "isActive ((?xs @ [doc]) ! i)" "isActive ((?xs @ [doc]) ! j)"
        "same_slot ((?xs @ [doc]) ! i) ((?xs @ [doc]) ! j)" for i j
    proof -
      consider "i < length ?xs" "j < length ?xs" | "i < length ?xs" "j = length ?xs"
        | "i = length ?xs" "j < length ?xs"
        using h(1-3) by linarith
      then show ?thesis
      proof cases
        case 1
        with h assms show ?thesis by (simp add: no_overlap_def nth_append)
      next
        case 2
        with h free [of "?xs ! i"] show ?thesis by (simp add: nth_append)
      next
        case 3
        with h free [of "?xs ! j"] show ?thesis
          by (simp add: nth_append same_slot_def Int_commute)
      qed
    qed
    with Pair st' show ?thesis by (simp add: no_overlap_def)
  qed
qed

lemma deleteShowtime_list_update:
  assumes "deleteShowtime i st = (Inr ok, st')"
  shows "\<exists>k < length (showtimes st).
           sid (showtimes st ! k) = i \<and>
           showtimes st' = (showtimes st)[k := (showtimes st ! k)\<lparr>isActive := False\<rparr>] \<and>
           movies st' = movies st \<and> cinemas st' = cinemas st"
proof -
  from deleteShowtime_success [OF assms] obtain r where
    r: "Showtime_findById i st = Some r" "sid r = i"
       "st' = save (r\<lparr>isActive := False\<rparr>) st" by blast
  let ?doc = "r\<lparr>isActive := False\<rparr>"
  have "find (\<lambda>x. sid x = sid ?doc) (showtimes st) = Some r"
    using r by (simp add: Showtime_findById_def)
  from replace_by_id_update [OF this] obtain k where
    k: "k < length (showtimes st)" "showtimes st ! k = r"
       "replace_by_id ?doc (showtimes st) = (showtimes st)[k := ?doc]" by blast
  show ?thesis
    using k r by (intro exI [of _ k]) (simp add: save_def)
qed

lemma no_overlap_delete:
  assumes "no_overlap st"
  shows "no_overlap (snd (deleteShowtime i st))"
proof (cases "deleteShowtime i st")
  case (Pair rp st')
  show ?thesis
  proof (cases rp)
    case (Inl e)
    with Pair have "st' = st"
      unfolding deleteShowtime_def by (auto split: option.splits if_splits)
    with Pair assms show ?thesis by simp
  next
    case (Inr ok)
    with Pair have "deleteShowtime i st = (Inr ok, st')" by simp
    from deleteShowtime_list_update [OF this] obtain k where
      k: "k < length (showtimes st)"
         "showtimes st' = (showtimes st)[k := (showtimes st ! k)\<lparr>isActive := False\<rparr>]"
      by blast
    let ?xs = "showtimes st"
    have "interval (showtimes st' ! a) \<inter> interval (showtimes st' ! b) = {}"
      if h: "a < length ?xs" "b < length ?xs" "a \<noteq> b"
        "isActive (showtimes st' ! a)" "isActive (showtimes st' ! b)"
        "same_slot (showtimes st' ! a) (showtimes st' ! b)" for a b
    proof -
      from h(1,2,4,5) k have "a \<noteq> k" "b \<noteq> k" by auto
      with h k assms show ?thesis by (simp add: no_overlap_def)
    qed
    with Pair k show ?thesis by (simp add: no_overlap_def)
  qed
qed

lemma no_overlap_empty: "showtimes st = [] \<Longrightarrow> no_overlap st"
  by (simp add: no_overlap_def)

lemma no_overlap_run_without_update:
  "no_overlap st \<Longrightarrow> \<not> list_ex is_update rs \<Longrightarrow> no_overlap (run valid rs st)"
proof (induction rs arbitrary: st)
  case Nil
  then show ?case by (simp add: run_def)
next
  case (Cons r rs)
  from Cons.prems have "no_overlap (handle valid st r)"
    by (cases r) (simp_all add: no_overlap_create no_overlap_delete)
  with Cons show ?case by (simp add: run_def)
qed


lemma demo_run_update:
  "run (\<lambda>p. True)
     [CreateReq (fixed_zone 0) 1 (demo_body 50400000 JUndefined),
      CreateReq (fixed_zone 0) 2 (demo_body 58500000 JUndefined),
      UpdateReq 2 (no_patch\<lparr>p_startTime := Some 54000000\<rparr>)] (demo_store [])
   = demo_store [demo_showtime 1 50400000,
                 (demo_showtime 2 58500000)\<lparr>startTime := 54000000\<rparr>]"
proof -
  have 1: "handle v (demo_store []) (CreateReq (fixed_zone 0) 1 (demo_body 50400000 JUndefined))
             = demo_store [demo_showtime 1 50400000]" for v
    by (simp only: handle.simps createShowtime_demo_first snd_conv)
  have 2: "handle v (demo_store [demo_showtime 1 50400000])
             (CreateReq (fixed_zone 0) 2 (demo_body 58500000 JUndefined))
             = demo_store [demo_showtime 1 50400000, demo_showtime 2 58500000]" for v
    by (simp only: handle.simps createShowtime_demo_abutting snd_conv)
  have 3: "handle (\<lambda>p. True) (demo_store [demo_showtime 1 50400000, demo_showtime 2 58500000])
             (UpdateReq 2 (no_patch\<lparr>p_startTime := Some 54000000\<rparr>))
             = demo_store [demo_showtime 1 50400000,
                           (demo_showtime 2 58500000)\<lparr>startTime := 54000000\<rparr>]"
    by (simp add: updateShowtime_def apply_patch_def patched_def no_patch_def handler_defs
        demo_defs)
  show ?thesis
    by (simp only: run_def foldl_Cons foldl_Nil 1 2 3)
qed

lemma overlap_violates:
  assumes "i < length (showtimes st)" "j < length (showtimes st)" "i \<noteq> j"
      and "isActive (showtimes st ! i)" "isActive (showtimes st ! j)"
      and "same_slot (showtimes st ! i) (showtimes st ! j)"
      and "t \<in> interval (showtimes st ! i)" "t \<in> interval (showtimes st ! j)"
  shows "\<not> no_overlap st"
  using assms unfolding no_overlap_def by blast

lemma demo_run_update_overlap:
  "\<not> no_overlap (demo_store [demo_showtime 1 50400000,
                               (demo_showtime 2 58500000)\<lparr>startTime := 54000000\<rparr>])"
  by (rule overlap_violates [where i = 0 and j = 1 and t = 54000000])
     (simp_all add: demo_defs same_slot_def interval_def)

text \<open>
  Claim C1. The update handler writes the patch without the conflict query that create
  runs. From the empty schedule: create 14:00 to 16:15, create the abutting 16:15 to
  18:30, then update the second showtime's \<open>startTime\<close> to 15:00. The store then holds two
  active showtimes of one cinema, screen and date whose intervals share 15:00, so
  \<open>no_overlap\<close> fails there (\<open>demo_run_update_overlap\<close>). Creates and deletes alone keep
  the invariant (\<open>no_overlap_run_without_update\<close>).
\<close>

theorem updateShowtime_overlap:
  "run (\<lambda>p. True)
     [CreateReq (fixed_zone 0) 1 (demo_body 50400000 JUndefined),
      CreateReq (fixed_zone 0) 2 (demo_body 58500000 JUndefined),
      UpdateReq 2 (no_patch\<lparr>p_startTime := Some 54000000\<rparr>)] (demo_store [])
   = demo_store [demo_showtime 1 50400000,
                 (demo_showtime 2 58500000)\<lparr>startTime := 54000000\<rparr>] \<and>
   isActive (demo_showtime 1 50400000) \<and>
   isActive ((demo_showtime 2 58500000)\<lparr>startTime := 54000000\<rparr>) \<and>
   same_slot (demo_showtime 1 50400000) ((demo_showtime 2 58500000)\<lparr>startTime := 54000000\<rparr>) \<and>
   interval (demo_showtime 1 50400000) = {50400000 ..< 58500000} \<and>
   interval ((demo_showtime 2 58500000)\<lparr>startTime := 54000000\<rparr>) = {54000000 ..< 66600000} \<and>
   interval (demo_showtime 1 50400000) \<inter>
     interval ((demo_showtime 2 58500000)\<lparr>startTime := 54000000\<rparr>) \<noteq> {}"
proof -
  have "(54000000::int) \<in> {50400000 ..< 58500000} \<inter> {54000000 ..< 66600000}" by simp
  then have "{50400000 ..< 58500000} \<inter> {54000000 ..< 66600000} \<noteq> ({}::int set)" by blast
  then show ?thesis
    using demo_run_update by (simp add: demo_defs same_slot_def interval_def)
qed

end
